theory Spec2Isabelle
  imports Main "HOL-Library.AList"
begin

section \<open>JavaScript strings and arrays\<close>

text \<open>
  A JavaScript string is modelled as a \<^typ>\<open>string\<close>, one \<^typ>\<open>char\<close> per code unit
  (code units below 256). Array indexing \<open>xs[i]\<close> yields \<open>undefined\<close> outside
  the array, which is \<open>None\<close> here.
\<close>

definition js_index :: "'a list \<Rightarrow> int \<Rightarrow> 'a option" where
  "js_index xs i = (if 0 \<le> i \<and> i < int (length xs) then Some (xs ! nat i) else None)"

definition substring :: "'a list \<Rightarrow> nat \<Rightarrow> nat \<Rightarrow> 'a list" where
  \<comment> \<open>\<open>s.substring(a, b)\<close>: the arguments are swapped when \<open>a > b\<close> and clamped to the length.\<close>
  "substring s a b = take (max a b - min a b) (drop (min a b) s)"

definition is_space :: "char \<Rightarrow> bool" where
  \<comment> \<open>the code units below 256 that \<open>\<bslash>s\<close> and \<open>trim\<close> treat as white space:
      TAB, LF, VT, FF, CR, SPACE and NBSP\<close>
  "is_space c = (of_char c \<in> {9, 10, 11, 12, 13, 32, 160 :: nat})"

definition trim :: "string \<Rightarrow> string" where
  "trim s = rev (dropWhile is_space (rev (dropWhile is_space s)))"

function split_ws :: "string \<Rightarrow> string \<Rightarrow> string list" where
  \<comment> \<open>\<open>s.split(/\<bslash>s+/)\<close> is \<open>split_ws [] s\<close>: the first argument is the piece being read.
      The empty string gives one empty piece.\<close>
  "split_ws cur [] = [cur]"
| "split_ws cur (c # cs) =
     (if is_space c then cur # split_ws [] (dropWhile is_space cs)
      else split_ws (cur @ [c]) cs)"
  by pat_completeness auto
termination
  by (relation "measure (\<lambda>(cur, s). length s)")
     (auto simp: le_imp_less_Suc length_dropWhile_le)

section \<open>The student puzzle solver (StudentPuzzleSolver.tsx)\<close>

definition isCorrectMove :: "string list \<Rightarrow> int \<Rightarrow> string \<Rightarrow> bool" where
  \<comment> \<open>The arguments are \<open>puzzle.solution\<close>, \<open>currentMoveIndex\<close> and \<open>moveStr\<close>;
      the game argument of the source function is never read.\<close>
  "isCorrectMove solution currentMoveIndex moveStr =
     (case js_index solution (currentMoveIndex + 1) of
        None \<Rightarrow> False
      | Some expectedMove \<Rightarrow>
          if expectedMove = [] then False
          else if moveStr = expectedMove then True
          else
            let baseMove = substring moveStr 0 4;
                expectedBaseMove = substring expectedMove 0 4
            in if baseMove = expectedBaseMove
               then (let moveIsPromotion = (length moveStr = 5);
                         expectedIsPromotion = (length expectedMove = 5)
                     in moveIsPromotion \<or> expectedIsPromotion)
               else False)"

section \<open>The puzzle creator (StudentPuzzleSolver.tsx, second component)\<close>

subsection \<open>The regular expression of the UCI check\<close>

text \<open>
  The pattern \<open>/^[a-h][1-8][a-h][1-8][qrbnk]?$/\<close> is a sequence of character classes, the
  last one optional, anchored at both ends. \<open>matches\<close> is the matching relation of such
  patterns; an optional item is either taken or skipped.
\<close>

datatype cls = Range char char | OneOf string

fun in_cls :: "cls \<Rightarrow> char \<Rightarrow> bool" where
  "in_cls (Range lo hi) c = ((of_char lo :: nat) \<le> of_char c \<and> (of_char c :: nat) \<le> of_char hi)"
| "in_cls (OneOf cs) c = (c \<in> set cs)"

datatype item = One cls | Optional cls

fun matches :: "item list \<Rightarrow> string \<Rightarrow> bool" where
  "matches [] s = (s = [])"
| "matches (One k # r) s = (case s of [] \<Rightarrow> False | c # cs \<Rightarrow> in_cls k c \<and> matches r cs)"
| "matches (Optional k # r) s =
     ((case s of [] \<Rightarrow> False | c # cs \<Rightarrow> in_cls k c \<and> matches r cs) \<or> matches r s)"

definition uci_pattern :: "item list" where
  "uci_pattern =
     [One (Range CHR ''a'' CHR ''h''), One (Range CHR ''1'' CHR ''8''),
      One (Range CHR ''a'' CHR ''h''), One (Range CHR ''1'' CHR ''8''),
      Optional (OneOf ''qrbnk'')]"

definition isValidUCI :: "string list \<Rightarrow> bool" where
  "isValidUCI moves =
     list_all (\<lambda>move. (length move = 4 \<or> length move = 5) \<and> matches uci_pattern move) moves"

subsection \<open>The component state and the submit handler\<close>

record 'g creator =
  pc_initialFen :: string
  pc_game :: 'g
  pc_fen :: string
  pc_solutionInput :: string
  pc_solution :: "string list"
  pc_themes :: "string list"
  pc_themesInput :: string
  pc_currentMoveIndex :: int
  pc_isPlaying :: bool

definition invalid_uci_alert :: string where
  "invalid_uci_alert =
     ''Invalid UCI format. Moves should be like \"e2e4\" or \"e7e8q\", separated by spaces''"

definition handleSolutionSubmit :: "'g creator \<Rightarrow> 'g creator \<times> string option" where
  \<comment> \<open>The result is the next state and the alert shown, if any.\<close>
  "handleSolutionSubmit st =
     (let moves = split_ws [] (trim (pc_solutionInput st)) in
      if \<not> isValidUCI moves then (st, Some invalid_uci_alert)
      else (st\<lparr>pc_solution := moves, pc_solutionInput := [], pc_currentMoveIndex := -1,
                pc_isPlaying := False\<rparr>, None))"

text \<open>The wording of the specification for one token of the solution string.\<close>

definition uci_token :: "string \<Rightarrow> bool" where
  "uci_token t \<longleftrightarrow>
     (length t = 4 \<or> length t = 5) \<and>
     t ! 0 \<in> set ''abcdefgh'' \<and> t ! 1 \<in> set ''12345678'' \<and>
     t ! 2 \<in> set ''abcdefgh'' \<and> t ! 3 \<in> set ''12345678'' \<and>
     (length t = 5 \<longrightarrow> t ! 4 \<in> set ''qrbnk'')"

section \<open>The classroom board (ClassroomBoard.tsx)\<close>

text \<open>
  The chess rules come from the chess.js library, which is not part of the repository.
  The component is modelled over any implementation of the calls it makes: a value of
  type \<open>'g\<close> is the state of a \<open>Chess\<close> object, and a call that throws (or, for
  \<open>move\<close>, returns \<open>null\<close>) gives \<open>None\<close> and leaves the object as it was.
\<close>

record 'g chess_lib =
  new_chess :: 'g                                             \<comment> \<open>\<open>new Chess()\<close>\<close>
  chess_of_fen :: "string \<Rightarrow> 'g option"                        \<comment> \<open>\<open>new Chess(fen)\<close>\<close>
  chess_load :: "'g \<Rightarrow> string \<Rightarrow> 'g option"                    \<comment> \<open>\<open>g.load(fen)\<close>\<close>
  chess_move :: "'g \<Rightarrow> string \<Rightarrow> string \<Rightarrow> string \<Rightarrow> 'g option"  \<comment> \<open>\<open>g.move({from, to, promotion})\<close>\<close>
  chess_fen :: "'g \<Rightarrow> string"                                 \<comment> \<open>\<open>g.fen()\<close>\<close>
  chess_history :: "'g \<Rightarrow> string list"                        \<comment> \<open>\<open>g.history()\<close>\<close>

datatype orientation = White | Black

record ('g, 's) board =
  cb_game :: 'g
  cb_boardOrientation :: orientation
  cb_moveHistory :: "string list"
  cb_currentMoveIndex :: int
  cb_socket :: "'s option"
  cb_isConnected :: bool

datatype 's effect =
    Emit 's string string   \<comment> \<open>\<open>socket.emit(event, {fen})\<close>: the socket, the event name, the FEN\<close>
  | Toast string string     \<comment> \<open>title and description of a toast\<close>

definition updateMoveHistory :: "'g chess_lib \<Rightarrow> 'g \<Rightarrow> ('g, 's) board \<Rightarrow> ('g, 's) board" where
  "updateMoveHistory lib currentGame st =
     (let history = chess_history lib currentGame in
      st\<lparr>cb_moveHistory := history, cb_currentMoveIndex := int (length history) - 1\<rparr>)"

definition emit_board_update :: "'g chess_lib \<Rightarrow> ('g, 's) board \<Rightarrow> 'g \<Rightarrow> 's effect list" where
  \<comment> \<open>\<open>socket?.emit('board_update', {fen: newGame.fen()})\<close>: nothing is sent without a socket\<close>
  "emit_board_update lib st newGame =
     (case cb_socket st of
        None \<Rightarrow> []
      | Some s \<Rightarrow> [Emit s ''board_update'' (chess_fen lib newGame)])"

definition handleMove ::
  "'g chess_lib \<Rightarrow> ('g, 's) board \<Rightarrow> string \<Rightarrow> string \<Rightarrow> ('g, 's) board \<times> 's effect list \<times> bool"
where
  \<comment> \<open>The result is the next state, the effects in order, and the value returned.
      \<open>game.move\<close> changes the game object in place, so a failure of the constructor
      after it leaves the moved game in the state.\<close>
  "handleMove lib st sourceSquare targetSquare =
     (if \<not> cb_isConnected st
      then (st, [Toast ''Not Connected'' ''Please wait for connection to be established''], False)
      else
       (case chess_move lib (cb_game st) sourceSquare targetSquare ''q'' of
          None \<Rightarrow> (st, [], False)
        | Some moved \<Rightarrow>
            (case chess_of_fen lib (chess_fen lib moved) of
               None \<Rightarrow> (st\<lparr>cb_game := moved\<rparr>, [], False)
             | Some newGame \<Rightarrow>
                 (updateMoveHistory lib newGame (st\<lparr>cb_game := newGame\<rparr>),
                  emit_board_update lib st newGame, True))))"

definition on_board_update :: "'g chess_lib \<Rightarrow> ('g, 's) board \<Rightarrow> string \<Rightarrow> ('g, 's) board" where
  \<comment> \<open>The handler of a received \<open>board_update\<close> message with field \<open>fen\<close>. When
      \<open>load\<close> throws, \<open>setGame\<close> is not reached.\<close>
  "on_board_update lib st data_fen =
     (case chess_load lib (new_chess lib) data_fen of
        None \<Rightarrow> st
      | Some newGame \<Rightarrow> st\<lparr>cb_game := newGame\<rparr>)"

text \<open>An implementation of the library calls on which the handlers can be run: a game is
  the list of moves made, and its position string spells them out.\<close>

definition list_lib :: "string chess_lib" where
  "list_lib =
     \<lparr>new_chess = ''start'',
      chess_of_fen = (\<lambda>f. if f = [] then None else Some f),
      chess_load = (\<lambda>g f. if f = [] then None else Some f),
      chess_move = (\<lambda>g a b p. if a = b then None else Some (g @ '' '' @ a @ b)),
      chess_fen = (\<lambda>g. g),
      chess_history = (\<lambda>g. [])\<rparr>"

definition board0 :: "(string, nat) board" where
  "board0 =
     \<lparr>cb_game = ''start'', cb_boardOrientation = White, cb_moveHistory = [],
      cb_currentMoveIndex = -1, cb_socket = Some 7, cb_isConnected = True\<rparr>"

section \<open>The server: documents and collections (models/index.ts)\<close>

type_synonym oid = nat    \<comment> \<open>an ObjectId\<close>
type_synonym time = int   \<comment> \<open>a Date, in milliseconds\<close>

datatype role = Coach | Student
datatype provider = Zoom | GoogleMeet
datatype status = NotStarted | InProgress | Completed

record prefs =
  defaultMeetingProvider :: "provider option"
  defaultMeetingUrl :: "string option"

record user =
  u_username :: string
  u_password :: string
  u_name :: string
  u_email :: "string option"
  u_avatar :: "string option"
  u_role :: role
  u_preferences :: prefs
  u_createdAt :: time

record puzzle =
  pz_fen :: string
  pz_solution :: "string list"
  pz_themes :: "string list"
  pz_createdBy :: oid
  pz_createdAt :: time

record attempt =
  at_moves :: "string list"
  at_timestamp :: time

record assignment =
  as_puzzleId :: oid
  as_studentId :: oid
  as_completed :: bool
  as_assignedAt :: time
  as_attempts :: "attempt list"

record schedule =
  cs_title :: string
  cs_description :: "string option"
  cs_coachId :: oid
  cs_studentIds :: "oid list"
  cs_startTime :: time
  cs_endTime :: time
  cs_timezone :: string
  cs_meetingUrl :: string
  cs_meetingProvider :: provider
  cs_status :: status
  cs_actualStartTime :: "time option"
  cs_actualEndTime :: "time option"
  cs_attendees :: "oid list"
  cs_createdAt :: time

text \<open>
  A collection holds its documents in insertion order, each under its \<open>_id\<close>. The
  operations below are the Mongoose calls of the handlers whose filter fixes the \<open>_id\<close>;
  the predicate is the rest of the filter.
\<close>

type_synonym 'd collection = "(oid \<times> 'd) list"

record db =
  users :: "user collection"
  puzzles :: "puzzle collection"
  assignments :: "assignment collection"
  schedules :: "schedule collection"

definition ids :: "'d collection \<Rightarrow> oid set" where
  "ids c = fst ` set c"

definition findById :: "oid \<Rightarrow> 'd collection \<Rightarrow> 'd option" where
  "findById i c = map_of c i"

definition findOne :: "oid \<Rightarrow> ('d \<Rightarrow> bool) \<Rightarrow> 'd collection \<Rightarrow> 'd option" where
  "findOne i P c = (case map_of c i of None \<Rightarrow> None | Some x \<Rightarrow> if P x then Some x else None)"

definition findOneAndUpdate ::
  "oid \<Rightarrow> ('d \<Rightarrow> bool) \<Rightarrow> ('d \<Rightarrow> 'd) \<Rightarrow> 'd collection \<Rightarrow> 'd option \<times> 'd collection" where
  \<comment> \<open>with \<open>{new: true}\<close>: the document returned is the updated one\<close>
  "findOneAndUpdate i P f c =
     (case findOne i P c of
        None \<Rightarrow> (None, c)
      | Some x \<Rightarrow> (Some (f x), AList.update i (f x) c))"

definition findOneAndDelete ::
  "oid \<Rightarrow> ('d \<Rightarrow> bool) \<Rightarrow> 'd collection \<Rightarrow> 'd option \<times> 'd collection" where
  "findOneAndDelete i P c =
     (case findOne i P c of
        None \<Rightarrow> (None, c)
      | Some x \<Rightarrow> (Some x, AList.delete i c))"

definition findByIdAndUpdate :: "oid \<Rightarrow> ('d \<Rightarrow> 'd) \<Rightarrow> 'd collection \<Rightarrow> 'd option \<times> 'd collection" where
  "findByIdAndUpdate i f c = findOneAndUpdate i (\<lambda>x. True) f c"

definition findByIdAndDelete :: "oid \<Rightarrow> 'd collection \<Rightarrow> 'd option \<times> 'd collection" where
  "findByIdAndDelete i c = findOneAndDelete i (\<lambda>x. True) c"

definition insert_doc :: "oid \<Rightarrow> 'd \<Rightarrow> 'd collection \<Rightarrow> 'd collection option" where
  \<comment> \<open>inserting under an \<open>_id\<close> that is taken fails with a duplicate key error\<close>
  "insert_doc i x c = (if i \<in> ids c then None else Some (c @ [(i, x)]))"

section \<open>The environment of a request\<close>

text \<open>
  What a handler reads from outside the database: the clock, the ObjectId that a created
  document receives, the random salt, and the library functions whose code is not in the
  repository (scrypt, and the URL and e-mail checks of the validation schemas).
\<close>

record env =
  env_now :: time                                \<comment> \<open>\<open>new Date()\<close>, \<open>Date.now\<close>\<close>
  env_objectId :: oid
  env_salt :: string                             \<comment> \<open>\<open>randomBytes(16).toString("hex")\<close>\<close>
  scrypt_hex :: "string \<Rightarrow> string \<Rightarrow> string"      \<comment> \<open>\<open>scrypt(password, salt, 64)\<close> in hex\<close>
  is_url :: "string \<Rightarrow> bool"
  is_email :: "string \<Rightarrow> bool"

text \<open>
  A field of a request body is absent (or falsy, where the handler tests it with \<open>!\<close>),
  or present but rejected by the cast or the schema, or present with a value.
\<close>

datatype 'a field = Missing | Invalid | Given 'a

section \<open>Passwords (auth.ts)\<close>

definition hashPassword :: "env \<Rightarrow> string \<Rightarrow> string" where
  "hashPassword e password = scrypt_hex e password (env_salt e) @ ''.'' @ env_salt e"

fun split_on :: "char \<Rightarrow> string \<Rightarrow> string \<Rightarrow> string list" where
  \<comment> \<open>\<open>s.split(".")\<close> is \<open>split_on CHR ''.'' [] s\<close>\<close>
  "split_on sep cur [] = [cur]"
| "split_on sep cur (c # cs) =
     (if c = sep then cur # split_on sep [] cs else split_on sep (cur @ [c]) cs)"

definition comparePasswords :: "env \<Rightarrow> string \<Rightarrow> string \<Rightarrow> bool option" where
  \<comment> \<open>\<open>None\<close> when the call throws: no salt after the dot, or buffers of different
      lengths in \<open>timingSafeEqual\<close>. Stored hashes are lower-case hex, as
      \<open>hashPassword\<close> writes them, so comparing the buffers is comparing the hex strings.\<close>
  "comparePasswords e supplied stored =
     (case split_on CHR ''.'' [] stored of
        hashed # salt # _ \<Rightarrow>
          (let suppliedHex = scrypt_hex e supplied salt in
           if length hashed \<noteq> length suppliedHex then None
           else Some (hashed = suppliedHex))
      | _ \<Rightarrow> None)"

section \<open>The storage class (MongoStorage)\<close>

definition UserModel_create :: "env \<Rightarrow> user \<Rightarrow> user collection \<Rightarrow> (oid \<times> user) option \<times> user collection" where
  \<comment> \<open>\<open>None\<close> when the call throws: a required string is empty, the username is taken
      (unique index), or the \<open>_id\<close> is taken.\<close>
  "UserModel_create e usr us =
     (if u_username usr = [] \<or> u_password usr = [] \<or> u_name usr = [] then (None, us)
      else if u_username usr \<in> (\<lambda>(i, x). u_username x) ` set us then (None, us)
      else (case insert_doc (env_objectId e) usr us of
              None \<Rightarrow> (None, us)
            | Some us' \<Rightarrow> (Some (env_objectId e, usr), us')))"

definition getUser :: "oid \<Rightarrow> user collection \<Rightarrow> (oid \<times> user) option" where
  "getUser i us = map_option (Pair i) (findById i us)"

definition getUserByUsername :: "string \<Rightarrow> user collection \<Rightarrow> (oid \<times> user) option" where
  "getUserByUsername username us = find (\<lambda>(i, x). u_username x = username) us"

record insert_user =
  iu_username :: string
  iu_password :: string
  iu_name :: string
  iu_email :: "string option"
  iu_role :: role
  iu_preferences :: "prefs option"

definition createUser :: "env \<Rightarrow> insert_user \<Rightarrow> user collection \<Rightarrow> (oid \<times> user) option \<times> user collection" where
  "createUser e userData us =
     UserModel_create e
       \<lparr>u_username = iu_username userData, u_password = iu_password userData,
        u_name = iu_name userData, u_email = iu_email userData, u_avatar = None,
        u_role = iu_role userData,
        u_preferences = (case iu_preferences userData of
                           None \<Rightarrow> \<lparr>defaultMeetingProvider = None, defaultMeetingUrl = None\<rparr>
                         | Some p \<Rightarrow> p),
        u_createdAt = env_now e\<rparr> us"

definition createStudent :: "env \<Rightarrow> string \<times> string \<Rightarrow> user collection \<Rightarrow> (oid \<times> user) option \<times> user collection" where
  \<comment> \<open>\<open>data\<close> is the parsed request: the username and the name\<close>
  "createStudent e data us =
     (let password = hashPassword e ''student123'' in
      UserModel_create e
        \<lparr>u_username = fst data, u_password = password, u_name = snd data,
         u_email = None, u_avatar = None, u_role = Student,
         u_preferences = \<lparr>defaultMeetingProvider = None, defaultMeetingUrl = None\<rparr>,
         u_createdAt = env_now e\<rparr> us)"

definition getStudents :: "user collection \<Rightarrow> (oid \<times> user) list" where
  "getStudents us = filter (\<lambda>(i, x). u_role x = Student) us"

definition updatePreferences :: "oid \<Rightarrow> prefs \<Rightarrow> user collection \<Rightarrow> (oid \<times> user) option \<times> user collection" where
  \<comment> \<open>\<open>None\<close> when it throws \<open>User not found\<close>\<close>
  "updatePreferences userId p us =
     (case findByIdAndUpdate userId (\<lambda>x. x\<lparr>u_preferences := p\<rparr>) us of
        (None, us') \<Rightarrow> (None, us')
      | (Some x, us') \<Rightarrow> (Some (userId, x), us'))"

definition updateProfile ::
  "oid \<Rightarrow> string option \<Rightarrow> string option \<Rightarrow> string option \<Rightarrow> user collection
     \<Rightarrow> (oid \<times> user) option \<times> user collection" where
  \<comment> \<open>the profile fields \<open>name\<close>, \<open>email\<close> and \<open>avatar\<close>; one that is not given is
      left as it is\<close>
  "updateProfile userId nm em av us =
     (case findByIdAndUpdate userId
             (\<lambda>x. x\<lparr>u_name := (case nm of None \<Rightarrow> u_name x | Some n \<Rightarrow> n),
                     u_email := (case em of None \<Rightarrow> u_email x | Some m \<Rightarrow> Some m),
                     u_avatar := (case av of None \<Rightarrow> u_avatar x | Some a \<Rightarrow> Some a)\<rparr>) us of
        (None, us') \<Rightarrow> (None, us')
      | (Some x, us') \<Rightarrow> (Some (userId, x), us'))"

definition setupAuth_coach :: "env \<Rightarrow> db \<Rightarrow> db" where
  \<comment> \<open>the end of \<open>setupAuth\<close>: the default coach is created if no user is named \<open>coach\<close>\<close>
  "setupAuth_coach e d =
     (case getUserByUsername ''coach'' (users d) of
        Some c \<Rightarrow> d
      | None \<Rightarrow>
          d\<lparr>users := snd (createUser e
                \<lparr>iu_username = ''coach'', iu_password = hashPassword e ''coach123'',
                 iu_name = ''Head Coach'', iu_email = None, iu_role = Coach,
                 iu_preferences = None\<rparr> (users d))\<rparr>)"

section \<open>The routes (registerRoutes)\<close>

text \<open>
  A request is a route with its parameters and the user that passport attached to it
  (\<open>req.user\<close>, a user document with its \<open>_id\<close>, or nothing). A path parameter that
  names a document is given as the ObjectId it casts to, \<open>None\<close> when the cast throws.
  The array of moves of an attempt is given as cast, \<open>None\<close> when the cast throws.
\<close>

record puzzle_body =
  pb_id :: "oid field"
  pb_fen :: "string field"
  pb_solution :: "string list field"
  pb_themes :: "string list field"
  pb_createdAt :: "time field"

record schedule_body =
  sb_title :: "string option"               \<comment> \<open>\<open>None\<close>: not a string\<close>
  sb_description :: "string option"         \<comment> \<open>\<open>None\<close>: not a string\<close>
  sb_studentIds :: "oid list option"        \<comment> \<open>\<open>None\<close>: not an array of ObjectId strings\<close>
  sb_startTime :: "time option"             \<comment> \<open>\<open>new Date(body.startTime)\<close>, \<open>None\<close> for an invalid date\<close>
  sb_endTime :: "time option"
  sb_timezone :: "string field"
  sb_meetingProvider :: "provider field"
  sb_meetingUrl :: "string field"

record profile_body =
  pf_name :: "string option"                \<comment> \<open>\<open>None\<close>: not a string\<close>
  pf_email :: "string field"
  pf_currentPassword :: "string field"
  pf_newPassword :: "string field"

datatype route =
    Login string string                                   \<comment> \<open>POST /api/login\<close>
  | Logout                                                \<comment> \<open>POST /api/logout\<close>
  | GetUser                                               \<comment> \<open>GET /api/user\<close>
  | PostStudents "string option" "string option"          \<comment> \<open>POST /api/students: username, name\<close>
  | GetStudents                                           \<comment> \<open>GET /api/students\<close>
  | PostPuzzles puzzle_body                               \<comment> \<open>POST /api/puzzles\<close>
  | GetPuzzleIds                                          \<comment> \<open>GET /api/puzzles/ids\<close>
  | GetPuzzles                                            \<comment> \<open>GET /api/puzzles\<close>
  | PostAssignments "oid field" "oid field"               \<comment> \<open>POST /api/assignments: puzzleId, studentId\<close>
  | GetStudentPuzzles "oid option"                        \<comment> \<open>GET /api/students/:studentId/puzzles\<close>
  | GetMyAssignments                                      \<comment> \<open>GET /api/my/assignments\<close>
  | GetMyCompleted                                        \<comment> \<open>GET /api/my/completed\<close>
  | PostComplete "oid option" "string list option"        \<comment> \<open>POST /api/assignments/:assignmentId/complete\<close>
  | PostAttempt "oid option" "string list option"         \<comment> \<open>POST /api/assignments/:assignmentId/attempt\<close>
  | DeleteStudentPuzzle "oid option" "oid option"         \<comment> \<open>DELETE /api/students/:studentId/puzzles/:puzzleId\<close>
  | PostClassSchedules schedule_body                      \<comment> \<open>POST /api/class-schedules\<close>
  | GetCoachSchedules                                     \<comment> \<open>GET /api/class-schedules/coach\<close>
  | GetStudentSchedules                                   \<comment> \<open>GET /api/class-schedules/student\<close>
  | PostStart "oid option"                                \<comment> \<open>POST /api/class-schedules/:scheduleId/start\<close>
  | PostEnd "oid option"                                  \<comment> \<open>POST /api/class-schedules/:scheduleId/end\<close>
  | PostAttend "oid option"                               \<comment> \<open>POST /api/class-schedules/:scheduleId/attend\<close>
  | PutProfile profile_body                               \<comment> \<open>PUT /api/profile\<close>
  | PutPreferences "provider option" "string option"      \<comment> \<open>PUT /api/preferences\<close>
  | GetPreferences                                        \<comment> \<open>GET /api/preferences\<close>
  | PostPuzzlesUpdate "oid field" "string list field" "string list field"
                                                          \<comment> \<open>POST /api/puzzles/update: puzzleId, solution, themes\<close>
  | PostPuzzlesDelete "oid field"                         \<comment> \<open>POST /api/puzzles/delete: puzzleId\<close>

datatype payload =
    JUser "(oid \<times> user) option"
  | JPuzzle oid puzzle
  | JAssignment oid assignment
  | JSchedule oid schedule

datatype response =
    Status nat              \<comment> \<open>\<open>res.sendStatus(n)\<close>\<close>
  | Message nat string      \<comment> \<open>\<open>res.status(n).json({message})\<close> with a message of the handler\<close>
  | Caught nat              \<comment> \<open>\<open>res.status(n).json({message: error.message})\<close> in a catch block\<close>
  | Json nat payload        \<comment> \<open>\<open>res.status(n).json(document)\<close>\<close>
  | ReadResult              \<comment> \<open>the answer of a route that does not write to the database
                                (a query, login, logout); its content is not modelled\<close>

type_synonym req_user = "(oid \<times> user) option"

definition requireCoach :: "req_user \<Rightarrow> response option" where
  \<comment> \<open>\<open>None\<close>: \<open>next()\<close> is called\<close>
  "requireCoach u =
     (case u of
        None \<Rightarrow> Some (Message 403 ''Coach access required'')
      | Some (uid, usr) \<Rightarrow>
          if u_role usr \<noteq> Coach then Some (Message 403 ''Coach access required'') else None)"

definition createStudentSchema_parse :: "string option \<Rightarrow> string option \<Rightarrow> (string \<times> string) option" where
  \<comment> \<open>the schema \<open>createStudentSchema\<close> of the shared schema module,
      \<open>userSchema.pick({username, name})\<close>: the username has at least three characters;
      other keys of the body are dropped\<close>
  "createStudentSchema_parse username name =
     (case (username, name) of
        (Some un, Some n) \<Rightarrow> if 3 \<le> length un then Some (un, n) else None
      | _ \<Rightarrow> None)"

definition routes_createStudentSchema ::
  "(string option \<Rightarrow> string option \<Rightarrow> (string \<times> string) option) option" where
  \<comment> \<open>What the name \<open>createStudentSchema\<close> is bound to in the routes module: nothing. The
      module imports \<open>insertClassScheduleSchema\<close>, \<open>updateProfileSchema\<close> and
      \<open>updatePreferencesSchema\<close> from the shared schema module and no other schema.\<close>
  "routes_createStudentSchema = None"

definition post_students :: "env \<Rightarrow> string option \<Rightarrow> string option \<Rightarrow> db \<Rightarrow> response \<times> db" where
  \<comment> \<open>Reading the unbound name throws a ReferenceError inside the \<open>try\<close>, which the
      \<open>catch\<close> answers with status 400.\<close>
  "post_students e username name d =
     (case routes_createStudentSchema of
        None \<Rightarrow> (Caught 400, d)
      | Some parse \<Rightarrow>
          (case parse username name of
             None \<Rightarrow> (Caught 400, d)
           | Some data \<Rightarrow>
               (case createStudent e data (users d) of
                  (None, us) \<Rightarrow> (Caught 400, d)
                | (Some student, us) \<Rightarrow> (Json 201 (JUser (Some student)), d\<lparr>users := us\<rparr>))))"

definition field_invalid :: "'a field \<Rightarrow> bool" where
  "field_invalid f = (case f of Invalid \<Rightarrow> True | _ \<Rightarrow> False)"

definition field_default :: "'a \<Rightarrow> 'a field \<Rightarrow> 'a" where
  "field_default x f = (case f of Given y \<Rightarrow> y | _ \<Rightarrow> x)"

definition post_puzzles :: "env \<Rightarrow> req_user \<Rightarrow> puzzle_body \<Rightarrow> db \<Rightarrow> response \<times> db" where
  \<comment> \<open>\<open>PuzzleModel.create({...req.body, createdBy})\<close>: the body may carry its own \<open>_id\<close>
      and \<open>createdAt\<close>; \<open>fen\<close> is required and not empty.\<close>
  "post_puzzles e u b d =
     (case u of
        None \<Rightarrow> (Caught 400, d)
      | Some (uid, usr) \<Rightarrow>
          if field_invalid (pb_id b) \<or> field_invalid (pb_fen b) \<or> field_invalid (pb_solution b)
             \<or> field_invalid (pb_themes b) \<or> field_invalid (pb_createdAt b)
          then (Caught 400, d)
          else if field_default [] (pb_fen b) = [] then (Caught 400, d)
          else
            let i = field_default (env_objectId e) (pb_id b);
                p = \<lparr>pz_fen = field_default [] (pb_fen b),
                     pz_solution = field_default [] (pb_solution b),
                     pz_themes = field_default [] (pb_themes b),
                     pz_createdBy = uid,
                     pz_createdAt = field_default (env_now e) (pb_createdAt b)\<rparr>
            in (case insert_doc i p (puzzles d) of
                  None \<Rightarrow> (Caught 400, d)
                | Some ps \<Rightarrow> (Json 201 (JPuzzle i p), d\<lparr>puzzles := ps\<rparr>)))"

definition post_assignments :: "env \<Rightarrow> oid field \<Rightarrow> oid field \<Rightarrow> db \<Rightarrow> response \<times> db" where
  \<comment> \<open>\<open>findById\<close> of an absent id finds nothing; an id that does not cast throws\<close>
  "post_assignments e puzzleId studentId d =
     (if field_invalid puzzleId \<or> field_invalid studentId then (Caught 400, d)
      else
       (case (puzzleId, studentId) of
          (Given p, Given s) \<Rightarrow>
            (case (findById p (puzzles d), getUser s (users d)) of
               (Some puzzle, Some (sid, student)) \<Rightarrow>
                 if u_role student \<noteq> Student
                 then (Message 400 ''Can only assign to students'', d)
                 else
                   let a = \<lparr>as_puzzleId = p, as_studentId = s, as_completed = False,
                            as_assignedAt = env_now e, as_attempts = []\<rparr>
                   in (case insert_doc (env_objectId e) a (assignments d) of
                         None \<Rightarrow> (Caught 400, d)
                       | Some as \<Rightarrow> (Json 201 (JAssignment (env_objectId e) a),
                                     d\<lparr>assignments := as\<rparr>))
             | _ \<Rightarrow> (Message 404 ''Puzzle or student not found'', d))
        | _ \<Rightarrow> (Message 404 ''Puzzle or student not found'', d)))"

definition post_complete :: "env \<Rightarrow> req_user \<Rightarrow> oid option \<Rightarrow> string list option \<Rightarrow> db \<Rightarrow> response \<times> db" where
  "post_complete e u assignmentId moves d =
     (case u of
        None \<Rightarrow> (Status 401, d)
      | Some (uid, usr) \<Rightarrow>
          if u_role usr \<noteq> Student then (Status 403, d)
          else
           (case (assignmentId, moves) of
              (Some a, Some ms) \<Rightarrow>
                (case findOneAndUpdate a
                        (\<lambda>x. as_studentId x = uid \<and> as_completed x = False)
                        (\<lambda>x. x\<lparr>as_completed := True,
                                as_attempts := as_attempts x @
                                  [\<lparr>at_moves = ms, at_timestamp = env_now e\<rparr>]\<rparr>)
                        (assignments d) of
                   (None, as) \<Rightarrow> (Message 404 ''Assignment not found or already completed'', d)
                 | (Some x, as) \<Rightarrow> (Json 200 (JAssignment a x), d\<lparr>assignments := as\<rparr>))
            | _ \<Rightarrow> (Caught 500, d)))"

definition post_attempt :: "env \<Rightarrow> req_user \<Rightarrow> oid option \<Rightarrow> string list option \<Rightarrow> db \<Rightarrow> response \<times> db" where
  "post_attempt e u assignmentId moves d =
     (case u of
        None \<Rightarrow> (Status 401, d)
      | Some (uid, usr) \<Rightarrow>
          if u_role usr \<noteq> Student then (Status 403, d)
          else
           (case (assignmentId, moves) of
              (Some a, Some ms) \<Rightarrow>
                (case findOneAndUpdate a
                        (\<lambda>x. as_studentId x = uid)
                        (\<lambda>x. x\<lparr>as_attempts := as_attempts x @
                                  [\<lparr>at_moves = ms, at_timestamp = env_now e\<rparr>]\<rparr>)
                        (assignments d) of
                   (None, as) \<Rightarrow> (Message 404 ''Assignment not found'', d)
                 | (Some x, as) \<Rightarrow> (Json 200 (JAssignment a x), d\<lparr>assignments := as\<rparr>))
            | _ \<Rightarrow> (Caught 500, d)))"

definition delete_student_puzzle :: "oid option \<Rightarrow> oid option \<Rightarrow> db \<Rightarrow> response \<times> db" where
  \<comment> \<open>the path parameter \<open>puzzleId\<close> is matched against the \<open>_id\<close> of the assignment\<close>
  "delete_student_puzzle studentId puzzleId d =
     (case (puzzleId, studentId) of
        (Some a, Some s) \<Rightarrow>
          (case findOneAndDelete a
                  (\<lambda>x. as_studentId x = s \<and> as_completed x = False) (assignments d) of
             (None, as) \<Rightarrow> (Message 404 ''Assignment not found or already completed'', d)
           | (Some x, as) \<Rightarrow> (Message 200 ''Assignment deleted successfully'', d\<lparr>assignments := as\<rparr>))
      | _ \<Rightarrow> (Caught 500, d))"

definition addToSet :: "'a list \<Rightarrow> 'a \<Rightarrow> 'a list" where
  "addToSet xs x = (if x \<in> set xs then xs else xs @ [x])"

definition minutes :: "int \<Rightarrow> time" where
  "minutes n = n * 60000"

definition or_else :: "string field \<Rightarrow> string option \<Rightarrow> string option" where
  \<comment> \<open>\<open>body.x || fallback\<close> for a string field: the empty string is falsy\<close>
  "or_else f fallback =
     (case f of Given x \<Rightarrow> if x = [] then fallback else Some x | _ \<Rightarrow> fallback)"

definition post_class_schedules :: "env \<Rightarrow> req_user \<Rightarrow> schedule_body \<Rightarrow> db \<Rightarrow> response \<times> db" where
  \<comment> \<open>Every failure (an invalid date, the schema, the model validation, a taken \<open>_id\<close>)
      is caught with status 400. The schema drops \<open>_id\<close>, \<open>status\<close>, the actual times
      and \<open>attendees\<close> from the body, so the model defaults apply.\<close>
  "post_class_schedules e u b d =
     (case u of
        None \<Rightarrow> (Caught 400, d)
      | Some (uid, usr) \<Rightarrow>
          let userTimezone = or_else (sb_timezone b) (Some ''UTC'');
              preferences = (case findById uid (users d) of
                               None \<Rightarrow> \<lparr>defaultMeetingProvider = None, defaultMeetingUrl = None\<rparr>
                             | Some x \<Rightarrow> u_preferences x);
              meetingProvider = (case sb_meetingProvider b of
                                   Given p \<Rightarrow> Some p
                                 | _ \<Rightarrow> defaultMeetingProvider preferences);
              meetingUrl = or_else (sb_meetingUrl b) (defaultMeetingUrl preferences)
          in
          (case (sb_startTime b, sb_endTime b, sb_title b, sb_studentIds b,
                 userTimezone, meetingProvider, meetingUrl) of
             (Some startTime, Some endTime, Some title, Some studentIds,
              Some tz, Some prov, Some url) \<Rightarrow>
               if field_invalid (sb_timezone b) \<or> field_invalid (sb_meetingProvider b)
                  \<or> field_invalid (sb_meetingUrl b) \<or> sb_description b = None
                  \<or> title = [] \<or> \<not> is_url e url \<or> url = []
               then (Caught 400, d)
               else
                 let x = \<lparr>cs_title = title, cs_description = sb_description b, cs_coachId = uid,
                          cs_studentIds = studentIds, cs_startTime = startTime,
                          cs_endTime = endTime, cs_timezone = tz, cs_meetingUrl = url,
                          cs_meetingProvider = prov, cs_status = NotStarted,
                          cs_actualStartTime = None, cs_actualEndTime = None,
                          cs_attendees = [], cs_createdAt = env_now e\<rparr>
                 in (case insert_doc (env_objectId e) x (schedules d) of
                       None \<Rightarrow> (Caught 400, d)
                     | Some ss \<Rightarrow> (Json 201 (JSchedule (env_objectId e) x), d\<lparr>schedules := ss\<rparr>))
           | _ \<Rightarrow> (Caught 400, d)))"

text \<open>
  The start handler reads the schedule with \<open>findOne\<close>, tests it, assigns the two fields
  and writes them with \<open>schedule.save()\<close>. The read and the write are two database calls,
  and requests of other clients can be served between them. \<open>start_read\<close> is the
  handler up to the tests: it answers, or it leaves a save to be done for the schedule
  read, with the time read from the clock. \<open>start_save\<close> is the rest: \<open>save\<close> writes
  \<open>status\<close> and \<open>actualStartTime\<close> to the stored document with that \<open>_id\<close>, with no
  test of the status it has by then, and throws when the document is gone. Served in
  turn, on a schedule read \<open>in_progress\<close>, the write of \<open>status\<close> stores the
  value that is there. The document read again for the answer is one more database call;
  it changes nothing stored.
\<close>

definition start_read :: "env \<Rightarrow> req_user \<Rightarrow> oid option \<Rightarrow> db \<Rightarrow> response + oid \<times> time" where
  "start_read e u scheduleId d =
     (case (u, scheduleId) of
        (Some (uid, usr), Some s) \<Rightarrow>
          let now = env_now e in
          (case findOne s (\<lambda>x. cs_coachId x = uid) (schedules d) of
             None \<Rightarrow> Inl (Message 404 ''Schedule not found'')
           | Some schedule \<Rightarrow>
               let startTime = cs_startTime schedule;
                   earlyAccessTime = startTime + minutes (-10)
               in
               if now < earlyAccessTime then Inl (Message 400 ''Too early to start class'')
               else if cs_status schedule = Completed
               then Inl (Message 400 ''Class is already completed'')
               else Inr (s, now))
      | _ \<Rightarrow> Inl (Caught 500))"

definition start_save :: "oid \<times> time \<Rightarrow> db \<Rightarrow> response \<times> db" where
  "start_save p d =
     (case p of
        (s, now) \<Rightarrow>
          (case findById s (schedules d) of
             None \<Rightarrow> (Caught 500, d)
           | Some stored \<Rightarrow>
               let saved = stored\<lparr>cs_status := InProgress, cs_actualStartTime := Some now\<rparr>;
                   d' = d\<lparr>schedules := AList.update s saved (schedules d)\<rparr>
               in (case findById s (schedules d') of
                     None \<Rightarrow> (Message 404 ''Schedule not found after update'', d')
                   | Some populatedSchedule \<Rightarrow> (Json 200 (JSchedule s populatedSchedule), d'))))"

definition post_start :: "env \<Rightarrow> req_user \<Rightarrow> oid option \<Rightarrow> db \<Rightarrow> response \<times> db" where
  \<comment> \<open>a start request served with no other request between its read and its write\<close>
  "post_start e u scheduleId d =
     (case start_read e u scheduleId d of
        Inl answer \<Rightarrow> (answer, d)
      | Inr p \<Rightarrow> start_save p d)"

definition post_end :: "env \<Rightarrow> req_user \<Rightarrow> oid option \<Rightarrow> db \<Rightarrow> response \<times> db" where
  "post_end e u scheduleId d =
     (case (u, scheduleId) of
        (Some (uid, usr), Some s) \<Rightarrow>
          (case findOneAndUpdate s
                  (\<lambda>x. cs_coachId x = uid \<and> cs_status x = InProgress)
                  (\<lambda>x. x\<lparr>cs_status := Completed, cs_actualEndTime := Some (env_now e)\<rparr>)
                  (schedules d) of
             (None, ss) \<Rightarrow> (Message 404 ''Schedule not found or cannot be ended'', d)
           | (Some x, ss) \<Rightarrow> (Json 200 (JSchedule s x), d\<lparr>schedules := ss\<rparr>))
      | _ \<Rightarrow> (Caught 500, d))"

definition post_attend :: "req_user \<Rightarrow> oid option \<Rightarrow> db \<Rightarrow> response \<times> db" where
  "post_attend u scheduleId d =
     (case u of
        None \<Rightarrow> (Status 401, d)
      | Some (uid, usr) \<Rightarrow>
          if u_role usr \<noteq> Student then (Status 403, d)
          else
           (case scheduleId of
              None \<Rightarrow> (Caught 500, d)
            | Some s \<Rightarrow>
                (case findOneAndUpdate s
                        (\<lambda>x. cs_status x = InProgress \<and> uid \<in> set (cs_studentIds x)
                              \<and> uid \<notin> set (cs_attendees x))
                        (\<lambda>x. x\<lparr>cs_attendees := addToSet (cs_attendees x) uid\<rparr>)
                        (schedules d) of
                   (None, ss) \<Rightarrow>
                     (Message 404 ''Schedule not found or attendance already marked'', d)
                 | (Some x, ss) \<Rightarrow> (Json 200 (JSchedule s x), d\<lparr>schedules := ss\<rparr>))))"

record profile_data =
  pd_name :: string
  pd_email :: "string option"
  pd_currentPassword :: "string option"
  pd_newPassword :: "string option"

definition optional_field :: "('a \<Rightarrow> bool) \<Rightarrow> 'a field \<Rightarrow> 'a option option" where
  \<comment> \<open>an optional key of a schema: absent, or a value that passes the check;
      \<open>None\<close> when the schema rejects it\<close>
  "optional_field ok f =
     (case f of
        Missing \<Rightarrow> Some None
      | Invalid \<Rightarrow> None
      | Given x \<Rightarrow> if ok x then Some (Some x) else None)"

definition updateProfileSchema_parse :: "env \<Rightarrow> profile_body \<Rightarrow> profile_data option" where
  "updateProfileSchema_parse e b =
     (case (pf_name b, optional_field (is_email e) (pf_email b),
            optional_field (\<lambda>p. 6 \<le> length p) (pf_currentPassword b),
            optional_field (\<lambda>p. 6 \<le> length p) (pf_newPassword b)) of
        (Some n, Some em, Some cur, Some new) \<Rightarrow>
          Some \<lparr>pd_name = n, pd_email = em, pd_currentPassword = cur, pd_newPassword = new\<rparr>
      | _ \<Rightarrow> None)"

definition set_profile :: "profile_data \<Rightarrow> user \<Rightarrow> user" where
  \<comment> \<open>the update \<open>{name, email}\<close>; an email that is not given leaves the stored one\<close>
  "set_profile data x =
     x\<lparr>u_name := pd_name data,
       u_email := (case pd_email data of None \<Rightarrow> u_email x | Some m \<Rightarrow> Some m)\<rparr>"

definition put_profile :: "env \<Rightarrow> req_user \<Rightarrow> profile_body \<Rightarrow> db \<Rightarrow> response \<times> db" where
  "put_profile e u b d =
     (case u of
        None \<Rightarrow> (Status 401, d)
      | Some (userId, usr) \<Rightarrow>
          (case updateProfileSchema_parse e b of
             None \<Rightarrow> (Caught 400, d)
           | Some data \<Rightarrow>
               (case (pd_currentPassword data, pd_newPassword data) of
                  (Some currentPassword, Some newPassword) \<Rightarrow>
                    (case findById userId (users d) of
                       None \<Rightarrow> (Message 404 ''User not found'', d)
                     | Some x \<Rightarrow>
                         (case comparePasswords e currentPassword (u_password x) of
                            None \<Rightarrow> (Caught 400, d)
                          | Some False \<Rightarrow> (Message 400 ''Current password is incorrect'', d)
                          | Some True \<Rightarrow>
                              let hashedPassword = hashPassword e newPassword;
                                  us = snd (findByIdAndUpdate userId
                                         (\<lambda>x. (set_profile data x)\<lparr>u_password := hashedPassword\<rparr>)
                                         (users d))
                              in (Json 200 (JUser (getUser userId us)), d\<lparr>users := us\<rparr>)))
                | _ \<Rightarrow>
                    let us = snd (findByIdAndUpdate userId (set_profile data) (users d))
                    in (Json 200 (JUser (getUser userId us)), d\<lparr>users := us\<rparr>))))"

definition put_preferences :: "env \<Rightarrow> req_user \<Rightarrow> provider option \<Rightarrow> string option \<Rightarrow> db \<Rightarrow> response \<times> db" where
  \<comment> \<open>the body fields are \<open>None\<close> when the schema rejects them (absent, or not of the type)\<close>
  "put_preferences e u prov url d =
     (case u of
        None \<Rightarrow> (Status 401, d)
      | Some (userId, usr) \<Rightarrow>
          if u_role usr \<noteq> Coach then (Status 403, d)
          else
           (case (prov, url) of
              (Some p, Some m) \<Rightarrow>
                if \<not> is_url e m then (Caught 400, d)
                else
                  (case findByIdAndUpdate userId
                          (\<lambda>x. x\<lparr>u_preferences :=
                                    \<lparr>defaultMeetingProvider = Some p, defaultMeetingUrl = Some m\<rparr>\<rparr>)
                          (users d) of
                     (updatedUser, us) \<Rightarrow>
                       (Json 200 (JUser (map_option (Pair userId) updatedUser)), d\<lparr>users := us\<rparr>))
            | _ \<Rightarrow> (Caught 400, d)))"

definition post_puzzles_update ::
  "oid field \<Rightarrow> string list field \<Rightarrow> string list field \<Rightarrow> db \<Rightarrow> response \<times> db" where
  \<comment> \<open>\<open>Missing\<close> is a falsy field, which the first test rejects\<close>
  "post_puzzles_update puzzleId sol th d =
     (if puzzleId = Missing \<or> sol = Missing \<or> th = Missing
      then (Message 400 ''Missing required fields'', d)
      else
       (case (puzzleId, sol, th) of
          (Given i, Given s, Given t) \<Rightarrow>
            (case findByIdAndUpdate i (\<lambda>x. x\<lparr>pz_solution := s, pz_themes := t\<rparr>) (puzzles d) of
               (None, ps) \<Rightarrow> (Message 404 ''Puzzle not found'', d)
             | (Some updatedPuzzle, ps) \<Rightarrow> (Json 200 (JPuzzle i updatedPuzzle), d\<lparr>puzzles := ps\<rparr>))
        | _ \<Rightarrow> (Caught 500, d)))"

definition post_puzzles_delete :: "oid field \<Rightarrow> db \<Rightarrow> response \<times> db" where
  "post_puzzles_delete puzzleId d =
     (case puzzleId of
        Missing \<Rightarrow> (Message 400 ''Missing puzzle ID'', d)
      | Invalid \<Rightarrow> (Caught 500, d)
      | Given i \<Rightarrow>
          (case findByIdAndDelete i (puzzles d) of
             (None, ps) \<Rightarrow> (Message 404 ''Puzzle not found'', d)
           | (Some deletedPuzzle, ps) \<Rightarrow>
               (Message 200 ''Puzzle deleted successfully'', d\<lparr>puzzles := ps\<rparr>)))"

definition student_only_read :: "req_user \<Rightarrow> response" where
  \<comment> \<open>the two tests that open the student routes which only read\<close>
  "student_only_read u =
     (case u of
        None \<Rightarrow> Status 401
      | Some (uid, usr) \<Rightarrow> if u_role usr \<noteq> Student then Status 403 else ReadResult)"

definition get_preferences :: "req_user \<Rightarrow> response" where
  "get_preferences u =
     (case u of
        None \<Rightarrow> Status 401
      | Some (uid, usr) \<Rightarrow> if u_role usr \<noteq> Coach then Status 403 else ReadResult)"

fun handler :: "env \<Rightarrow> req_user \<Rightarrow> route \<Rightarrow> db \<Rightarrow> response \<times> db" where
  "handler e u (Login username password) d = (ReadResult, d)"
| "handler e u Logout d = (ReadResult, d)"
| "handler e u GetUser d = (case u of None \<Rightarrow> (Status 401, d) | Some x \<Rightarrow> (Json 200 (JUser u), d))"
| "handler e u (PostStudents username name) d = post_students e username name d"
| "handler e u GetStudents d = (ReadResult, d)"
| "handler e u (PostPuzzles b) d = post_puzzles e u b d"
| "handler e u GetPuzzleIds d = (ReadResult, d)"
| "handler e u GetPuzzles d = (ReadResult, d)"
| "handler e u (PostAssignments puzzleId studentId) d = post_assignments e puzzleId studentId d"
| "handler e u (GetStudentPuzzles studentId) d = (ReadResult, d)"
| "handler e u GetMyAssignments d = (student_only_read u, d)"
| "handler e u GetMyCompleted d = (student_only_read u, d)"
| "handler e u (PostComplete assignmentId moves) d = post_complete e u assignmentId moves d"
| "handler e u (PostAttempt assignmentId moves) d = post_attempt e u assignmentId moves d"
| "handler e u (DeleteStudentPuzzle studentId puzzleId) d = delete_student_puzzle studentId puzzleId d"
| "handler e u (PostClassSchedules b) d = post_class_schedules e u b d"
| "handler e u GetCoachSchedules d = (ReadResult, d)"
| "handler e u GetStudentSchedules d = (student_only_read u, d)"
| "handler e u (PostStart scheduleId) d = post_start e u scheduleId d"
| "handler e u (PostEnd scheduleId) d = post_end e u scheduleId d"
| "handler e u (PostAttend scheduleId) d = post_attend u scheduleId d"
| "handler e u (PutProfile b) d = put_profile e u b d"
| "handler e u (PutPreferences prov url) d = put_preferences e u prov url d"
| "handler e u GetPreferences d = (get_preferences u, d)"
| "handler e u (PostPuzzlesUpdate puzzleId sol th) d = post_puzzles_update puzzleId sol th d"
| "handler e u (PostPuzzlesDelete puzzleId) d = post_puzzles_delete puzzleId d"

fun coach_only :: "route \<Rightarrow> bool" where
  \<comment> \<open>the routes registered with the \<open>requireCoach\<close> middleware\<close>
  "coach_only (PostStudents username name) = True"
| "coach_only GetStudents = True"
| "coach_only (PostPuzzles b) = True"
| "coach_only GetPuzzleIds = True"
| "coach_only (PostAssignments puzzleId studentId) = True"
| "coach_only (GetStudentPuzzles studentId) = True"
| "coach_only (DeleteStudentPuzzle studentId puzzleId) = True"
| "coach_only (PostClassSchedules b) = True"
| "coach_only GetCoachSchedules = True"
| "coach_only (PostStart scheduleId) = True"
| "coach_only (PostEnd scheduleId) = True"
| "coach_only (PostPuzzlesUpdate puzzleId sol th) = True"
| "coach_only (PostPuzzlesDelete puzzleId) = True"
| "coach_only r = False"

definition handle :: "env \<Rightarrow> req_user \<Rightarrow> route \<Rightarrow> db \<Rightarrow> response \<times> db" where
  \<comment> \<open>one request: the middleware of the route, then its handler\<close>
  "handle e u r d =
     (if coach_only r
      then (case requireCoach u of
              Some denied \<Rightarrow> (denied, d)
            | None \<Rightarrow> handler e u r d)
      else handler e u r d)"

record request =
  rq_env :: env
  rq_user :: req_user
  rq_route :: route

fun run :: "request list \<Rightarrow> db \<Rightarrow> db" where
  \<comment> \<open>the database after a sequence of requests, each served before the next begins\<close>
  "run [] d = d"
| "run (q # qs) d = run qs (snd (handle (rq_env q) (rq_user q) (rq_route q) d))"

subsection \<open>Requests served in turns\<close>

text \<open>
  The server awaits each database call, and serves other requests meanwhile. The only
  handler that writes to the schedules after an earlier read of its own is start, so an
  execution is a sequence of events in which a start request may be served in two parts:
  its read, and later its save, with any events between them. A number names the start
  request whose save is to come. Every other request is one event.
\<close>

datatype event =
    Request env req_user route                  \<comment> \<open>a whole request\<close>
  | StartRead nat env req_user "oid option"     \<comment> \<open>a start request up to its tests\<close>
  | StartSave nat                               \<comment> \<open>the save and the answer of that request\<close>

record server =
  sv_db :: db
  sv_pending :: "(nat \<times> oid \<times> time) list"    \<comment> \<open>the start requests that have read and not saved\<close>

fun step :: "event \<Rightarrow> server \<Rightarrow> server" where
  "step (Request e u r) sv = sv\<lparr>sv_db := snd (handle e u r (sv_db sv))\<rparr>"
| "step (StartRead n e u scheduleId) sv =
     (case requireCoach u of
        Some denied \<Rightarrow> sv
      | None \<Rightarrow>
          (case start_read e u scheduleId (sv_db sv) of
             Inl answer \<Rightarrow> sv
           | Inr p \<Rightarrow> sv\<lparr>sv_pending := AList.update n p (sv_pending sv)\<rparr>))"
| "step (StartSave n) sv =
     (case map_of (sv_pending sv) n of
        None \<Rightarrow> sv
      | Some p \<Rightarrow>
          sv\<lparr>sv_db := snd (start_save p (sv_db sv)),
             sv_pending := AList.delete n (sv_pending sv)\<rparr>)"

fun exec :: "event list \<Rightarrow> server \<Rightarrow> server" where
  "exec [] sv = sv"
| "exec (ev # evs) sv = exec evs (step ev sv)"

definition in_flight :: "server \<Rightarrow> oid \<Rightarrow> bool" where
  \<comment> \<open>a start request has read schedule \<open>s\<close> and has not saved yet\<close>
  "in_flight sv s = (s \<in> set (map (\<lambda>(n, p). fst p) (sv_pending sv)))"

definition creator0 :: "unit creator" where
  "creator0 =
     \<lparr>pc_initialFen = [], pc_game = (), pc_fen = [], pc_solutionInput = '' e2e4  e7e8q '',
      pc_solution = [''a1a2''], pc_themes = [], pc_themesInput = [],
      pc_currentMoveIndex = 0, pc_isPlaying = True\<rparr>"

section \<open>Notions of the specification\<close>

text \<open>The coach-only routes as the specification lists them: student creation, student
  listing, puzzle creation, update and delete, assignment creation and deletion,
  class-schedule creation, start and end.\<close>

fun spec_coach_route :: "route \<Rightarrow> bool" where
  "spec_coach_route (PostStudents username name) = True"
| "spec_coach_route GetStudents = True"
| "spec_coach_route (PostPuzzles b) = True"
| "spec_coach_route (PostPuzzlesUpdate puzzleId sol th) = True"
| "spec_coach_route (PostPuzzlesDelete puzzleId) = True"
| "spec_coach_route (PostAssignments puzzleId studentId) = True"
| "spec_coach_route (DeleteStudentPuzzle studentId puzzleId) = True"
| "spec_coach_route (PostClassSchedules b) = True"
| "spec_coach_route (PostStart scheduleId) = True"
| "spec_coach_route (PostEnd scheduleId) = True"
| "spec_coach_route r = False"

definition is_coach :: "req_user \<Rightarrow> bool" where
  "is_coach u = (case u of None \<Rightarrow> False | Some (uid, usr) \<Rightarrow> u_role usr = Coach)"

definition is_student :: "req_user \<Rightarrow> bool" where
  "is_student u = (case u of None \<Rightarrow> False | Some (uid, usr) \<Rightarrow> u_role usr = Student)"

definition completed_of :: "db \<Rightarrow> oid \<Rightarrow> bool option" where
  \<comment> \<open>the completed flag of an assignment, if the assignment is stored\<close>
  "completed_of d a = map_option as_completed (findById a (assignments d))"

definition status_of :: "db \<Rightarrow> oid \<Rightarrow> status option" where
  "status_of d s = map_option cs_status (findById s (schedules d))"

definition same_origin :: "puzzle \<Rightarrow> puzzle \<Rightarrow> bool" where
  \<comment> \<open>the fields of a puzzle that no edit may change\<close>
  "same_origin x y \<longleftrightarrow>
     pz_fen y = pz_fen x \<and> pz_createdBy y = pz_createdBy x \<and> pz_createdAt y = pz_createdAt x"

definition open_for :: "db \<Rightarrow> oid \<Rightarrow> oid \<Rightarrow> bool" where
  \<comment> \<open>\<open>open_for d s a\<close>: an assignment with id \<open>a\<close> exists for student \<open>s\<close> with
      completed = false\<close>
  "open_for d s a =
     (case findById a (assignments d) of
        None \<Rightarrow> False
      | Some x \<Rightarrow> as_studentId x = s \<and> as_completed x = False)"

section \<open>A small database\<close>

definition env0 :: env where
  "env0 =
     \<lparr>env_now = 1000000, env_objectId = 99, env_salt = ''5a17'',
      scrypt_hex = (\<lambda>password salt. rev password @ salt),
      is_url = (\<lambda>x. take 4 x = ''http''),
      is_email = (\<lambda>x. CHR ''@'' \<in> set x)\<rparr>"

definition coach0 :: user where
  "coach0 =
     \<lparr>u_username = ''coach'', u_password = ''321hcaoc5a17.5a17'', u_name = ''Head Coach'',
      u_email = None, u_avatar = None, u_role = Coach,
      u_preferences = \<lparr>defaultMeetingProvider = None, defaultMeetingUrl = None\<rparr>,
      u_createdAt = 0\<rparr>"

definition student0 :: user where
  "student0 =
     \<lparr>u_username = ''anna'', u_password = ''321tneduts5a17.5a17'', u_name = ''Anna'',
      u_email = None, u_avatar = None, u_role = Student,
      u_preferences = \<lparr>defaultMeetingProvider = None, defaultMeetingUrl = None\<rparr>,
      u_createdAt = 10\<rparr>"

definition puzzle0 :: puzzle where
  "puzzle0 =
     \<lparr>pz_fen = ''4k3/P7/8/8/8/8/8/4K3 w - - 0 1'', pz_solution = [''a7a8q''],
      pz_themes = [''promotion''], pz_createdBy = 1, pz_createdAt = 20\<rparr>"

definition open_assignment :: assignment where
  "open_assignment =
     \<lparr>as_puzzleId = 10, as_studentId = 2, as_completed = False, as_assignedAt = 30,
      as_attempts = []\<rparr>"

definition done_assignment :: assignment where
  "done_assignment =
     \<lparr>as_puzzleId = 10, as_studentId = 2, as_completed = True, as_assignedAt = 31,
      as_attempts = [\<lparr>at_moves = [''a7a8q''], at_timestamp = 40\<rparr>]\<rparr>"

definition class0 :: schedule where
  "class0 =
     \<lparr>cs_title = ''Endgames'', cs_description = Some ''Pawn endings'', cs_coachId = 1,
      cs_studentIds = [2], cs_startTime = 900000, cs_endTime = 4500000, cs_timezone = ''UTC'',
      cs_meetingUrl = ''https://meet.example/abc'', cs_meetingProvider = Zoom,
      cs_status = InProgress, cs_actualStartTime = Some 880000, cs_actualEndTime = None,
      cs_attendees = [], cs_createdAt = 50\<rparr>"

definition class1 :: schedule where
  "class1 = class0\<lparr>cs_title := ''Openings'', cs_status := Completed,
                   cs_actualEndTime := Some 950000\<rparr>"

definition db0 :: db where
  "db0 =
     \<lparr>users = [(1, coach0), (2, student0)],
      puzzles = [(10, puzzle0)],
      assignments = [(20, open_assignment), (21, done_assignment)],
      schedules = [(30, class0), (31, class1)]\<rparr>"

definition requests0 :: "request list" where
  "requests0 =
     [\<lparr>rq_env = env0, rq_user = Some (1, coach0),
       rq_route = PostStudents (Some ''bob'') (Some ''Bob'')\<rparr>,
      \<lparr>rq_env = env0, rq_user = Some (2, student0),
       rq_route = PutProfile \<lparr>pf_name = Some ''Anna K'', pf_email = Missing,
                                pf_currentPassword = Missing, pf_newPassword = Missing\<rparr>\<rparr>]"

definition coach1 :: user where
  "coach1 = coach0\<lparr>u_username := ''second'', u_name := ''Second Coach''\<rparr>"

definition class2 :: schedule where
  "class2 = class0\<lparr>cs_title := ''Tactics'', cs_status := NotStarted,
                   cs_actualStartTime := None\<rparr>"

definition server0 :: server where
  \<comment> \<open>the small database with a class that has not started, and no start request under way\<close>
  "server0 = \<lparr>sv_db = db0\<lparr>schedules := schedules db0 @ [(32, class2)]\<rparr>, sv_pending = []\<rparr>"

definition race0 :: "event list" where
  \<comment> \<open>a start request reads class 32; before it saves, a second start request and an end
      request on the class are served\<close>
  "race0 =
     [StartRead 0 env0 (Some (1, coach0)) (Some 32),
      Request env0 (Some (1, coach0)) (PostStart (Some 32)),
      Request env0 (Some (1, coach0)) (PostEnd (Some 32))]"

section \<open>Properties of the client\<close>

subsection \<open>Strings and characters\<close>

lemma substring_0: "substring s 0 n = take n s"
  by (simp add: substring_def)

lemma of_char_nat_inj: "(of_char c :: nat) = of_char d \<Longrightarrow> c = d"
  by (metis char_of_char)

lemma of_char_in_imp: "(of_char c :: nat) \<in> of_char ` set cs \<Longrightarrow> c \<in> set cs"
  by (auto dest: of_char_nat_inj)

lemma file_cls: "in_cls (Range CHR ''a'' CHR ''h'') c \<longleftrightarrow> c \<in> set ''abcdefgh''"
proof
  assume "in_cls (Range CHR ''a'' CHR ''h'') c"
  then have "(of_char c :: nat) \<in> {97, 98, 99, 100, 101, 102, 103, 104}"
    by (simp, arith)
  then have "(of_char c :: nat) \<in> of_char ` set ''abcdefgh''"
    by simp
  then show "c \<in> set ''abcdefgh''" by (rule of_char_in_imp)
next
  assume "c \<in> set ''abcdefgh''"
  then show "in_cls (Range CHR ''a'' CHR ''h'') c" by auto
qed

lemma rank_cls: "in_cls (Range CHR ''1'' CHR ''8'') c \<longleftrightarrow> c \<in> set ''12345678''"
proof
  assume "in_cls (Range CHR ''1'' CHR ''8'') c"
  then have "(of_char c :: nat) \<in> {49, 50, 51, 52, 53, 54, 55, 56}"
    by (simp, arith)
  then have "(of_char c :: nat) \<in> of_char ` set ''12345678''"
    by simp
  then show "c \<in> set ''12345678''" by (rule of_char_in_imp)
next
  assume "c \<in> set ''12345678''"
  then show "in_cls (Range CHR ''1'' CHR ''8'') c" by auto
qed

lemma len4: "length t = 4 \<Longrightarrow> \<exists>a b c d. t = [a,b,c,d]"
  by (auto simp: numeral_eq_Suc length_Suc_conv)
lemma len5: "length t = 5 \<Longrightarrow> \<exists>a b c d e. t = [a,b,c,d,e]"
  by (auto simp: numeral_eq_Suc length_Suc_conv)

lemma valid_move_iff:
  "(length t = 4 \<or> length t = 5) \<and> matches uci_pattern t \<longleftrightarrow> uci_token t"
proof (cases "length t = 4")
  case True
  then obtain a b c d where t: "t = [a, b, c, d]" using len4 by blast
  show ?thesis unfolding t uci_token_def uci_pattern_def
    by (simp add: file_cls rank_cls del: in_cls.simps(1))
next
  case n4: False
  show ?thesis
  proof (cases "length t = 5")
    case True
    then obtain a b c d e where t: "t = [a, b, c, d, e]" using len5 by blast
    show ?thesis unfolding t uci_token_def uci_pattern_def
      by (simp add: file_cls rank_cls del: in_cls.simps(1))
  next
    case False
    with n4 show ?thesis by (simp add: uci_token_def)
  qed
qed

lemma isValidUCI_iff: "isValidUCI ms \<longleftrightarrow> (\<forall>t \<in> set ms. uci_token t)"
  using valid_move_iff by (simp add: isValidUCI_def list_all_iff)

subsection \<open>The UCI check of the puzzle creator\<close>

text \<open>
  Claim C4. \<open>handleSolutionSubmit\<close> accepts the entered solution string (no alert is
  shown) if and only if every token of the trimmed string, split at white space, is a
  string of four or five characters of the form \<open>[a-h][1-8][a-h][1-8]\<close> with an optional
  fifth character among \<open>q\<close>, \<open>r\<close>, \<open>b\<close>, \<open>n\<close>, \<open>k\<close>. On acceptance the tokens
  become the solution, in order; on rejection the state, and so the stored solution, is
  unchanged.
\<close>

theorem handleSolutionSubmit_uci:
  fixes st :: "'g creator"
  defines "tokens \<equiv> split_ws [] (trim (pc_solutionInput st))"
  shows "(snd (handleSolutionSubmit st) = None \<longleftrightarrow> (\<forall>t \<in> set tokens. uci_token t)) \<and>
         (snd (handleSolutionSubmit st) = None \<longrightarrow>
            pc_solution (fst (handleSolutionSubmit st)) = tokens) \<and>
         (snd (handleSolutionSubmit st) \<noteq> None \<longrightarrow>
            fst (handleSolutionSubmit st) = st)"
  by (simp add: handleSolutionSubmit_def tokens_def isValidUCI_iff Let_def)

lemma tokens0: "split_ws [] (trim (pc_solutionInput creator0)) = [''e2e4'', ''e7e8q'']"
  by (simp add: creator0_def trim_def is_space_def)

lemma tokens1: "split_ws [] (trim (pc_solutionInput (creator0\<lparr>pc_solutionInput := ''e2e4 e9e5''\<rparr>))) = [''e2e4'', ''e9e5'']"
  by (simp add: creator0_def trim_def is_space_def)

theorem handleSolutionSubmit_uci_witness:
  "uci_token ''e2e4'' \<and> uci_token ''e7e8q'' \<and>
   snd (handleSolutionSubmit creator0) = None \<and>
   pc_solution (fst (handleSolutionSubmit creator0)) = [''e2e4'', ''e7e8q''] \<and>
   \<not> uci_token ''e9e5'' \<and>
   snd (handleSolutionSubmit (creator0\<lparr>pc_solutionInput := ''e2e4 e9e5''\<rparr>)) \<noteq> None \<and>
   pc_solution (fst (handleSolutionSubmit (creator0\<lparr>pc_solutionInput := ''e2e4 e9e5''\<rparr>))) = [''a1a2'']"
proof -
  have ok: "\<forall>t \<in> set [''e2e4'', ''e7e8q'']. uci_token t"
    by (simp add: uci_token_def)
  have bad: "\<not> uci_token ''e9e5''"
    by (simp add: uci_token_def)
  have keep: "pc_solution (creator0\<lparr>pc_solutionInput := ''e2e4 e9e5''\<rparr>) = [''a1a2'']"
    by (simp add: creator0_def)
  from ok bad keep tokens0 tokens1
    handleSolutionSubmit_uci [of creator0]
    handleSolutionSubmit_uci [of "creator0\<lparr>pc_solutionInput := ''e2e4 e9e5''\<rparr>"]
  show ?thesis by simp
qed

subsection \<open>The move check of the puzzle solver\<close>

text \<open>
  Claim C9. \<open>isCorrectMove\<close> holds if and only if there is an expected solution move
  (a non-empty entry of the solution at index \<open>currentMoveIndex + 1\<close>) and the played
  string equals it, or the two agree on their first four characters and at least one of
  them has length five. For a played move, whose string is not empty, the expected move
  need not be asked to be non-empty. So a promotion to another piece than the one of the
  solution is accepted.
\<close>

theorem isCorrectMove_iff:
  "(isCorrectMove sol idx moveStr \<longleftrightarrow>
      (\<exists>expectedMove. js_index sol (idx + 1) = Some expectedMove \<and> expectedMove \<noteq> [] \<and>
         (moveStr = expectedMove \<or>
          (take 4 moveStr = take 4 expectedMove \<and>
           (length moveStr = 5 \<or> length expectedMove = 5))))) \<and>
   (moveStr \<noteq> [] \<longrightarrow>
      (isCorrectMove sol idx moveStr \<longleftrightarrow>
         (\<exists>expectedMove. js_index sol (idx + 1) = Some expectedMove \<and>
            (moveStr = expectedMove \<or>
             (take 4 moveStr = take 4 expectedMove \<and>
              (length moveStr = 5 \<or> length expectedMove = 5)))))) \<and>
   (js_index sol (idx + 1) = Some expectedMove \<and>
    length moveStr = 5 \<and> length expectedMove = 5 \<and>
    take 4 moveStr = take 4 expectedMove \<longrightarrow> isCorrectMove sol idx moveStr)"
  by (auto simp: isCorrectMove_def substring_0 Let_def split: option.splits)

theorem isCorrectMove_iff_witness:
  "''e7e8n'' \<noteq> [] \<and> js_index [''e7e8q''] (-1 + 1) = Some ''e7e8q'' \<and>
   length ''e7e8n'' = 5 \<and> length ''e7e8q'' = 5 \<and> take 4 ''e7e8n'' = take 4 ''e7e8q'' \<and>
   ''e7e8n'' \<noteq> ''e7e8q'' \<and> isCorrectMove [''e7e8q''] (-1) ''e7e8n''"
proof -
  have ix: "js_index [''e7e8q''] (-1 + 1) = Some ''e7e8q''" by (simp add: js_index_def)
  have "isCorrectMove [''e7e8q''] (-1) ''e7e8n''"
    using isCorrectMove_iff [of "[''e7e8q'']" "-1" "''e7e8n''" "''e7e8q''"] ix by simp
  with ix show ?thesis by simp
qed

subsection \<open>The classroom board\<close>

lemma handleMove_legal:
  assumes "cb_isConnected st"
    and "chess_move lib (cb_game st) a b ''q'' = Some moved"
    and "chess_of_fen lib (chess_fen lib moved) = Some newGame"
  shows "handleMove lib st a b =
           (updateMoveHistory lib newGame (st\<lparr>cb_game := newGame\<rparr>),
            emit_board_update lib st newGame, True)"
  using assms by (simp add: handleMove_def)

lemma handleMove_True:
  assumes "handleMove lib st a b = (st', effects, True)"
  shows "\<exists>moved. chess_move lib (cb_game st) a b ''q'' = Some moved \<and>
           chess_of_fen lib (chess_fen lib moved) = Some (cb_game st') \<and>
           effects = emit_board_update lib st (cb_game st')"
  using assms
  by (auto simp: handleMove_def updateMoveHistory_def Let_def split: if_splits option.splits)

lemma on_board_update_loaded:
  "chess_load lib (new_chess lib) f = Some g \<Longrightarrow> on_board_update lib st f = st\<lparr>cb_game := g\<rparr>"
  by (simp add: on_board_update_def)

text \<open>
  Claim C5. When \<open>handleMove\<close> returns true (a legal local move on a connected board
  with a socket), it emits exactly one \<open>board_update\<close> message, whose FEN is that of the
  new local game. A received \<open>board_update\<close> whose FEN the library loads replaces the
  local game by the game loaded from that FEN, whatever the local game was, and leaves the
  rest of the state alone; after a sequence of such messages the game is that of the last
  one.
\<close>

theorem classroom_last_write_wins:
  fixes lib :: "'g chess_lib" and st st2 :: "('g, 's) board"
  shows
    "(handleMove lib st a b = (st', effects, True) \<and> cb_socket st = Some s \<longrightarrow>
        effects = [Emit s ''board_update'' (chess_fen lib (cb_game st'))]) \<and>
     (cb_isConnected st \<and> cb_socket st = Some s \<and>
      chess_move lib (cb_game st) a b ''q'' = Some moved \<and>
      chess_of_fen lib (chess_fen lib moved) = Some newGame \<longrightarrow>
        snd (snd (handleMove lib st a b)) \<and>
        cb_game (fst (handleMove lib st a b)) = newGame \<and>
        fst (snd (handleMove lib st a b)) = [Emit s ''board_update'' (chess_fen lib newGame)]) \<and>
     (chess_load lib (new_chess lib) f = Some g \<longrightarrow>
        on_board_update lib st f = st\<lparr>cb_game := g\<rparr> \<and>
        cb_game (on_board_update lib st f) = cb_game (on_board_update lib st2 f) \<and>
        cb_game (foldl (on_board_update lib) st (fs @ [f])) = g)"
proof (intro conjI impI)
  assume h: "handleMove lib st a b = (st', effects, True) \<and> cb_socket st = Some s"
  with handleMove_True [of lib st a b st' effects]
  show "effects = [Emit s ''board_update'' (chess_fen lib (cb_game st'))]"
    by (auto simp: emit_board_update_def)
next
  assume h: "cb_isConnected st \<and> cb_socket st = Some s \<and>
      chess_move lib (cb_game st) a b ''q'' = Some moved \<and>
      chess_of_fen lib (chess_fen lib moved) = Some newGame"
  then have eq: "handleMove lib st a b =
           (updateMoveHistory lib newGame (st\<lparr>cb_game := newGame\<rparr>),
            emit_board_update lib st newGame, True)"
    by (simp add: handleMove_legal)
  show "snd (snd (handleMove lib st a b))" by (simp add: eq)
  show "cb_game (fst (handleMove lib st a b)) = newGame"
    by (simp add: eq updateMoveHistory_def Let_def)
  show "fst (snd (handleMove lib st a b)) = [Emit s ''board_update'' (chess_fen lib newGame)]"
    using h by (simp add: eq emit_board_update_def)
next
  assume l: "chess_load lib (new_chess lib) f = Some g"
  show "on_board_update lib st f = st\<lparr>cb_game := g\<rparr>"
    using l by (rule on_board_update_loaded)
  show "cb_game (on_board_update lib st f) = cb_game (on_board_update lib st2 f)"
    using l by (simp add: on_board_update_loaded)
  show "cb_game (foldl (on_board_update lib) st (fs @ [f])) = g"
    using l by (simp add: on_board_update_loaded)
qed

theorem classroom_last_write_wins_witness:
  "handleMove list_lib board0 ''e2'' ''e4'' =
     (board0\<lparr>cb_game := ''start e2e4''\<rparr>, [Emit 7 ''board_update'' ''start e2e4''], True) \<and>
   cb_game (on_board_update list_lib board0 ''8/8/8/8/8/8/8/K1k5 w - - 0 1'') = ''8/8/8/8/8/8/8/K1k5 w - - 0 1'' \<and>
   cb_game (foldl (on_board_update list_lib) board0 [''first'', ''second'']) = ''second''"
proof -
  have c: "cb_isConnected board0 \<and> cb_socket board0 = Some 7 \<and>
      chess_move list_lib (cb_game board0) ''e2'' ''e4'' ''q'' = Some ''start e2e4'' \<and>
      chess_of_fen list_lib (chess_fen list_lib ''start e2e4'') = Some ''start e2e4''"
    by (simp add: board0_def list_lib_def)
  have hm: "handleMove list_lib board0 ''e2'' ''e4'' =
     (board0\<lparr>cb_game := ''start e2e4''\<rparr>, [Emit 7 ''board_update'' ''start e2e4''], True)"
    by (simp add: handleMove_def board0_def list_lib_def updateMoveHistory_def
          emit_board_update_def)
  have l1: "chess_load list_lib (new_chess list_lib) ''8/8/8/8/8/8/8/K1k5 w - - 0 1'' =
              Some ''8/8/8/8/8/8/8/K1k5 w - - 0 1''"
    by (simp add: list_lib_def)
  have l2: "chess_load list_lib (new_chess list_lib) ''second'' = Some ''second''"
    by (simp add: list_lib_def)
  from classroom_last_write_wins [of list_lib board0 "''e2''" "''e4''"
        "board0\<lparr>cb_game := ''start e2e4''\<rparr>" "[Emit 7 ''board_update'' ''start e2e4'']" 7
        "''start e2e4''" "''start e2e4''" "''8/8/8/8/8/8/8/K1k5 w - - 0 1''"
        "''8/8/8/8/8/8/8/K1k5 w - - 0 1''" board0 "[]"]
       classroom_last_write_wins [of list_lib board0 "''e2''" "''e4''"
        "board0\<lparr>cb_game := ''start e2e4''\<rparr>" "[Emit 7 ''board_update'' ''start e2e4'']" 7
        "''start e2e4''" "''start e2e4''" "''second''" "''second''" board0 "[''first'']"]
       c hm l1 l2
  show ?thesis by simp
qed

section \<open>Properties of the server\<close>

subsection \<open>Collections\<close>

lemma findById_update: "findById j (AList.update i x c) = (if j = i then Some x else findById j c)"
  by (simp add: findById_def update_conv')

lemma findById_delete: "findById j (AList.delete i c) = (if j = i then None else findById j c)"
  by (simp add: findById_def delete_conv')

lemma ids_update: "ids (AList.update i x c) = insert i (ids c)"
  by (simp add: ids_def dom_update)

lemma ids_delete: "ids (AList.delete i c) = ids c - {i}"
  by (auto simp: ids_def AList.delete_eq)

lemma findById_None_iff: "findById i c = None \<longleftrightarrow> i \<notin> ids c"
  by (simp add: findById_def ids_def map_of_eq_None_iff)

lemma insert_doc_Some:
  "insert_doc i x c = Some c' \<longleftrightarrow> i \<notin> ids c \<and> c' = c @ [(i, x)]"
  by (auto simp: insert_doc_def)

lemma findById_insert_doc:
  assumes "insert_doc i x c = Some c'"
  shows "findById j c' = (if j = i then Some x else findById j c)"
proof -
  from assms have new: "findById i c = None" and c': "c' = c @ [(i, x)]"
    by (simp_all add: insert_doc_Some findById_None_iff)
  show ?thesis
  proof (cases "j = i")
    case True
    with new show ?thesis by (simp add: c' findById_def map_add_def)
  next
    case False
    then show ?thesis by (simp add: c' findById_def map_add_def split: option.splits)
  qed
qed

lemma ids_insert_doc: "insert_doc i x c = Some c' \<Longrightarrow> ids c' = insert i (ids c)"
  by (auto simp: insert_doc_Some ids_def)

lemma findOne_eq:
  "findOne i P c = (case findById i c of None \<Rightarrow> None | Some x \<Rightarrow> if P x then Some x else None)"
  by (simp add: findOne_def findById_def)

lemma findOneAndUpdate_eq:
  "findOneAndUpdate i P f c =
     (case findById i c of
        None \<Rightarrow> (None, c)
      | Some x \<Rightarrow> if P x then (Some (f x), AList.update i (f x) c) else (None, c))"
  by (simp add: findOneAndUpdate_def findOne_eq split: option.splits)

lemma findOneAndDelete_eq:
  "findOneAndDelete i P c =
     (case findById i c of
        None \<Rightarrow> (None, c)
      | Some x \<Rightarrow> if P x then (Some x, AList.delete i c) else (None, c))"
  by (simp add: findOneAndDelete_def findOne_eq split: option.splits)

lemma findById_Some_ids: "findById i c = Some x \<Longrightarrow> i \<in> ids c"
  using findById_None_iff [of i c] by auto

lemma ids_findOneAndUpdate: "ids (snd (findOneAndUpdate i P f c)) = ids c"
  by (auto simp: findOneAndUpdate_eq ids_update split: option.splits dest: findById_Some_ids)

lemma ids_findByIdAndUpdate: "ids (snd (findByIdAndUpdate i f c)) = ids c"
  by (simp add: findByIdAndUpdate_def ids_findOneAndUpdate)

subsection \<open>Users\<close>

lemma UserModel_create_ids: "ids us \<subseteq> ids (snd (UserModel_create e usr us))"
  by (auto simp: UserModel_create_def insert_doc_Some ids_def split: option.splits)


lemma createStudent_ids: "ids us \<subseteq> ids (snd (createStudent e data us))"
  by (simp add: createStudent_def Let_def UserModel_create_ids)

lemma createUser_ids: "ids us \<subseteq> ids (snd (createUser e userData us))"
  by (simp add: createUser_def UserModel_create_ids)

lemma findByIdAndUpdate_ids_pair: "findByIdAndUpdate i f c = (r, c') \<Longrightarrow> ids c' = ids c"
  using ids_findByIdAndUpdate [of i f c] by simp

lemma updatePreferences_ids: "ids (snd (updatePreferences userId p us)) = ids us"
  by (auto simp: updatePreferences_def split: prod.splits option.splits
           dest: findByIdAndUpdate_ids_pair)

lemma updateProfile_ids: "ids (snd (updateProfile userId nm em av us)) = ids us"
  by (auto simp: updateProfile_def split: prod.splits option.splits
           dest: findByIdAndUpdate_ids_pair)

subsection \<open>What each handler leaves alone\<close>

lemma post_students_eq: "post_students e un n d = (Caught 400, d)"
  by (simp add: post_students_def routes_createStudentSchema_def)

lemma post_students_frame:
  "puzzles (snd (post_students e un n d)) = puzzles d"
  "assignments (snd (post_students e un n d)) = assignments d"
  "schedules (snd (post_students e un n d)) = schedules d"
  by (simp_all add: post_students_eq)

lemma post_students_users: "ids (users d) \<subseteq> ids (users (snd (post_students e un n d)))"
  by (simp add: post_students_eq)

lemma post_puzzles_frame:
  "users (snd (post_puzzles e u b d)) = users d"
  "assignments (snd (post_puzzles e u b d)) = assignments d"
  "schedules (snd (post_puzzles e u b d)) = schedules d"
  by (auto simp: post_puzzles_def Let_def split: option.splits prod.splits)

lemma post_assignments_frame:
  "users (snd (post_assignments e p s d)) = users d"
  "puzzles (snd (post_assignments e p s d)) = puzzles d"
  "schedules (snd (post_assignments e p s d)) = schedules d"
  by (auto simp: post_assignments_def Let_def split: option.splits prod.splits field.splits)

lemma post_complete_frame:
  "users (snd (post_complete e u a ms d)) = users d"
  "puzzles (snd (post_complete e u a ms d)) = puzzles d"
  "schedules (snd (post_complete e u a ms d)) = schedules d"
  by (auto simp: post_complete_def split: option.splits prod.splits)

lemma post_attempt_frame:
  "users (snd (post_attempt e u a ms d)) = users d"
  "puzzles (snd (post_attempt e u a ms d)) = puzzles d"
  "schedules (snd (post_attempt e u a ms d)) = schedules d"
  by (auto simp: post_attempt_def split: option.splits prod.splits)

lemma delete_student_puzzle_frame:
  "users (snd (delete_student_puzzle s a d)) = users d"
  "puzzles (snd (delete_student_puzzle s a d)) = puzzles d"
  "schedules (snd (delete_student_puzzle s a d)) = schedules d"
  by (auto simp: delete_student_puzzle_def split: option.splits prod.splits)

lemma post_class_schedules_frame:
  "users (snd (post_class_schedules e u b d)) = users d"
  "puzzles (snd (post_class_schedules e u b d)) = puzzles d"
  "assignments (snd (post_class_schedules e u b d)) = assignments d"
  by (auto simp: post_class_schedules_def Let_def split: option.splits prod.splits)

lemma start_save_frame:
  "users (snd (start_save p d)) = users d"
  "puzzles (snd (start_save p d)) = puzzles d"
  "assignments (snd (start_save p d)) = assignments d"
  by (auto simp: start_save_def Let_def split: option.splits prod.splits)

lemma post_start_frame:
  "users (snd (post_start e u s d)) = users d"
  "puzzles (snd (post_start e u s d)) = puzzles d"
  "assignments (snd (post_start e u s d)) = assignments d"
  by (auto simp: post_start_def start_save_frame split: sum.splits)

lemma post_end_frame:
  "users (snd (post_end e u s d)) = users d"
  "puzzles (snd (post_end e u s d)) = puzzles d"
  "assignments (snd (post_end e u s d)) = assignments d"
  by (auto simp: post_end_def split: option.splits prod.splits)

lemma post_attend_frame:
  "users (snd (post_attend u s d)) = users d"
  "puzzles (snd (post_attend u s d)) = puzzles d"
  "assignments (snd (post_attend u s d)) = assignments d"
  by (auto simp: post_attend_def split: option.splits prod.splits)

lemma put_profile_frame:
  "puzzles (snd (put_profile e u b d)) = puzzles d"
  "assignments (snd (put_profile e u b d)) = assignments d"
  "schedules (snd (put_profile e u b d)) = schedules d"
  by (auto simp: put_profile_def Let_def split: option.splits prod.splits bool.splits)

lemma put_profile_users: "ids (users (snd (put_profile e u b d))) = ids (users d)"
  by (auto simp: put_profile_def Let_def ids_findByIdAndUpdate
           split: option.splits prod.splits bool.splits)

lemma put_preferences_frame:
  "puzzles (snd (put_preferences e u p m d)) = puzzles d"
  "assignments (snd (put_preferences e u p m d)) = assignments d"
  "schedules (snd (put_preferences e u p m d)) = schedules d"
  by (auto simp: put_preferences_def split: option.splits prod.splits)

lemma put_preferences_users: "ids (users (snd (put_preferences e u p m d))) = ids (users d)"
  by (auto simp: put_preferences_def split: option.splits prod.splits
           dest: findByIdAndUpdate_ids_pair)

lemma post_puzzles_update_frame:
  "users (snd (post_puzzles_update i s t d)) = users d"
  "assignments (snd (post_puzzles_update i s t d)) = assignments d"
  "schedules (snd (post_puzzles_update i s t d)) = schedules d"
  by (auto simp: post_puzzles_update_def split: option.splits prod.splits field.splits)

lemma post_puzzles_delete_frame:
  "users (snd (post_puzzles_delete i d)) = users d"
  "assignments (snd (post_puzzles_delete i d)) = assignments d"
  "schedules (snd (post_puzzles_delete i d)) = schedules d"
  by (auto simp: post_puzzles_delete_def split: option.splits prod.splits field.splits)

lemmas frames =
  post_students_frame post_puzzles_frame post_assignments_frame post_complete_frame
  post_attempt_frame delete_student_puzzle_frame post_class_schedules_frame post_start_frame
  post_end_frame post_attend_frame put_profile_frame put_preferences_frame
  post_puzzles_update_frame post_puzzles_delete_frame

lemma handle_cases:
  "handle e u r d = handler e u r d \<or> handle e u r d = (Message 403 ''Coach access required'', d)"
  by (auto simp: handle_def requireCoach_def split: option.splits prod.splits)

lemma handler_users: "ids (users d) \<subseteq> ids (users (snd (handler e u r d)))"
  by (cases r)
     (simp_all add: frames post_students_users put_profile_users put_preferences_users
        split: option.splits)

lemma handle_users: "ids (users d) \<subseteq> ids (users (snd (handle e u r d)))"
  using handle_cases [of e u r d] handler_users [of d e u r] by auto

lemma run_users: "ids (users d) \<subseteq> ids (users (run qs d))"
proof (induction qs arbitrary: d)
  case Nil
  show ?case by simp
next
  case (Cons q qs)
  have "ids (users d) \<subseteq> ids (users (snd (handle (rq_env q) (rq_user q) (rq_route q) d)))"
    by (rule handle_users)
  also have "\<dots> \<subseteq> ids (users (run (q # qs) d))"
    using Cons.IH by simp
  finally show ?case .
qed

subsection \<open>Users are never removed\<close>

lemma step_users: "ids (users (sv_db sv)) \<subseteq> ids (users (sv_db (step ev sv)))"
  by (cases ev) (auto simp: start_save_frame split: option.splits sum.splits dest: subsetD [OF handle_users])

lemma exec_users: "ids (users (sv_db sv)) \<subseteq> ids (users (sv_db (exec evs sv)))"
proof (induction evs arbitrary: sv)
  case Nil
  show ?case by simp
next
  case (Cons ev evs)
  have "ids (users (sv_db sv)) \<subseteq> ids (users (sv_db (step ev sv)))"
    by (rule step_users)
  also have "\<dots> \<subseteq> ids (users (sv_db (exec (ev # evs) sv)))"
    using Cons.IH by simp
  finally show ?case .
qed

text \<open>
  Claim C8. No route, no sequence of requests, whether each is served before the next or
  a start request is served in two parts, and no operation of the storage class removes a
  user document: the set of the ids of the stored users only grows. The operations of the
  storage class that return no collection (\<open>getUser\<close>, \<open>getUserByUsername\<close>,
  \<open>getStudents\<close>) cannot change it.
\<close>

theorem users_never_deleted:
  "ids (users d) \<subseteq> ids (users (snd (handle e u r d))) \<and>
   ids (users d) \<subseteq> ids (users (run qs d)) \<and>
   ids (users d) \<subseteq> ids (users (setupAuth_coach e d)) \<and>
   ids us \<subseteq> ids (snd (createUser e userData us)) \<and>
   ids us \<subseteq> ids (snd (createStudent e data us)) \<and>
   ids us \<subseteq> ids (snd (updatePreferences userId p us)) \<and>
   ids us \<subseteq> ids (snd (updateProfile userId nm em av us)) \<and>
   ids (users (sv_db sv)) \<subseteq> ids (users (sv_db (exec evs sv)))"
proof -
  have "ids (users d) \<subseteq> ids (users (setupAuth_coach e d))"
    by (simp add: setupAuth_coach_def createUser_ids split: option.splits)
  then show ?thesis
    by (simp add: handle_users run_users createUser_ids createStudent_ids
          updatePreferences_ids updateProfile_ids exec_users)
qed

lemma users_after_requests0:
  "ids (users db0) = {1, 2} \<and> ids (users (run requests0 db0)) = {1, 2} \<and>
   map (\<lambda>(i, x). u_name x) (users (run requests0 db0)) = [''Head Coach'', ''Anna K''] \<and>
   ids (snd (createStudent env0 (''bob'', ''Bob'') (users db0))) = {1, 2, 99} \<and>
   ids (users (setupAuth_coach env0 (db0\<lparr>users := []\<rparr>))) = {99}"
  by code_simp

theorem users_never_deleted_witness:
  "ids (users db0) = {1, 2} \<and> ids (users (run requests0 db0)) = {1, 2} \<and>
   ids (users db0) \<subseteq> ids (users (run requests0 db0)) \<and>
   ids (snd (createStudent env0 (''bob'', ''Bob'') (users db0))) = {1, 2, 99} \<and>
   ids (users db0) \<subseteq> ids (snd (createStudent env0 (''bob'', ''Bob'') (users db0))) \<and>
   ids (users (setupAuth_coach env0 (db0\<lparr>users := []\<rparr>))) = {99}"
proof -
  from users_never_deleted [where d = db0 and qs = requests0 and us = "users db0"
         and e = env0 and data = "(''bob'', ''Bob'')"]
  have "ids (users db0) \<subseteq> ids (users (run requests0 db0)) \<and>
        ids (users db0) \<subseteq> ids (snd (createStudent env0 (''bob'', ''Bob'') (users db0)))"
    by blast
  with users_after_requests0 show ?thesis by simp
qed

subsection \<open>The default password of a student\<close>

lemma UserModel_create_Some:
  "UserModel_create e usr us = (Some (i, x), us') \<Longrightarrow>
     i = env_objectId e \<and> x = usr \<and> i \<notin> ids us \<and> us' = us @ [(i, usr)]"
  by (auto simp: UserModel_create_def insert_doc_Some split: if_splits option.splits)

lemma UserModel_create_None: "UserModel_create e usr us = (None, us') \<Longrightarrow> us' = us"
  by (auto simp: UserModel_create_def split: if_splits option.splits)

lemma createStudent_Some:
  assumes "createStudent e (username, name) us = (Some (i, usr), us')"
  shows "i = env_objectId e \<and> i \<notin> ids us \<and> us' = us @ [(i, usr)] \<and>
         usr = \<lparr>u_username = username, u_password = hashPassword e ''student123'',
                 u_name = name, u_email = None, u_avatar = None, u_role = Student,
                 u_preferences = \<lparr>defaultMeetingProvider = None, defaultMeetingUrl = None\<rparr>,
                 u_createdAt = env_now e\<rparr>"
proof -
  from assms have "UserModel_create e
        \<lparr>u_username = username, u_password = hashPassword e ''student123'',
         u_name = name, u_email = None, u_avatar = None, u_role = Student,
         u_preferences = \<lparr>defaultMeetingProvider = None, defaultMeetingUrl = None\<rparr>,
         u_createdAt = env_now e\<rparr> us = (Some (i, usr), us')"
    by (simp add: createStudent_def Let_def)
  from UserModel_create_Some [OF this] show ?thesis by auto
qed

lemma createStudent_None: "createStudent e data us = (None, us') \<Longrightarrow> us' = us"
  by (auto simp: createStudent_def Let_def dest: UserModel_create_None)

lemma findById_append_new: "i \<notin> ids us \<Longrightarrow> findById i (us @ [(i, x)]) = Some x"
  using findById_insert_doc [of i x us "us @ [(i, x)]" i] by (simp add: insert_doc_Some)

lemma findById_append_old: "j \<in> ids us \<Longrightarrow> findById j (us @ [(i, x)]) = findById j us"
  by (auto simp: findById_def map_add_def ids_def map_of_eq_None_iff split: option.splits)

text \<open>
  Claim C10. A student that \<open>createStudent\<close> stores has role \<open>student\<close> and the
  password \<open>hashPassword("student123")\<close>, the scrypt hash of the default string with the
  salt drawn, whatever the request holds; its username and name are those of the request.
  So two students stored with the same salt have the same role and the same password.
\<close>

theorem createStudent_default_password:
  "(createStudent e (username, name) us = (Some (i, usr), us') \<longrightarrow>
      u_role usr = Student \<and>
      u_password usr = scrypt_hex e ''student123'' (env_salt e) @ ''.'' @ env_salt e \<and>
      u_username usr = username \<and> u_name usr = name \<and> findById i us' = Some usr) \<and>
   (createStudent e (username, name) us = (Some (i, usr), us') \<and>
    createStudent e (username2, name2) us2 = (Some (i2, usr2), us2') \<longrightarrow>
      u_role usr2 = u_role usr \<and> u_password usr2 = u_password usr)"
proof (rule conjI; rule impI)
  assume a: "createStudent e (username, name) us = (Some (i, usr), us')"
  from createStudent_Some [OF a]
  show "u_role usr = Student \<and>
      u_password usr = scrypt_hex e ''student123'' (env_salt e) @ ''.'' @ env_salt e \<and>
      u_username usr = username \<and> u_name usr = name \<and> findById i us' = Some usr"
    by (auto simp: hashPassword_def findById_append_new)
next
  assume a: "createStudent e (username, name) us = (Some (i, usr), us') \<and>
    createStudent e (username2, name2) us2 = (Some (i2, usr2), us2')"
  from a createStudent_Some [of e username name us i usr us']
       createStudent_Some [of e username2 name2 us2 i2 usr2 us2']
  show "u_role usr2 = u_role usr \<and> u_password usr2 = u_password usr"
    by auto
qed

lemma createStudent_bob: "createStudent env0 (''bob'', ''Bob'') (users db0) =
   (Some (99, student0\<lparr>u_username := ''bob'', u_name := ''Bob'', u_createdAt := 1000000\<rparr>),
    users db0 @ [(99, student0\<lparr>u_username := ''bob'', u_name := ''Bob'', u_createdAt := 1000000\<rparr>)])"
  by code_simp

lemma createStudent_eve: "createStudent env0 (''eve'', ''Eve L'') [] =
   (Some (99, student0\<lparr>u_username := ''eve'', u_name := ''Eve L'', u_createdAt := 1000000\<rparr>),
    [(99, student0\<lparr>u_username := ''eve'', u_name := ''Eve L'', u_createdAt := 1000000\<rparr>)])"
  by code_simp

theorem createStudent_default_password_witness:
  "createStudent env0 (''bob'', ''Bob'') (users db0) =
     (Some (99, student0\<lparr>u_username := ''bob'', u_name := ''Bob'', u_createdAt := 1000000\<rparr>),
      users db0 @ [(99, student0\<lparr>u_username := ''bob'', u_name := ''Bob'', u_createdAt := 1000000\<rparr>)]) \<and>
   u_role (student0\<lparr>u_username := ''bob'', u_name := ''Bob'', u_createdAt := 1000000\<rparr>) = Student \<and>
   u_password (student0\<lparr>u_username := ''bob'', u_name := ''Bob'', u_createdAt := 1000000\<rparr>)
     = scrypt_hex env0 ''student123'' (env_salt env0) @ ''.'' @ env_salt env0 \<and>
   createStudent env0 (''eve'', ''Eve L'') [] =
     (Some (99, student0\<lparr>u_username := ''eve'', u_name := ''Eve L'', u_createdAt := 1000000\<rparr>),
      [(99, student0\<lparr>u_username := ''eve'', u_name := ''Eve L'', u_createdAt := 1000000\<rparr>)]) \<and>
   u_password (student0\<lparr>u_username := ''eve'', u_name := ''Eve L'', u_createdAt := 1000000\<rparr>)
     = u_password (student0\<lparr>u_username := ''bob'', u_name := ''Bob'', u_createdAt := 1000000\<rparr>)"
proof -
  note t = createStudent_default_password [of env0 "''bob''" "''Bob''" "users db0" 99
          "student0\<lparr>u_username := ''bob'', u_name := ''Bob'', u_createdAt := 1000000\<rparr>"
          "users db0 @ [(99, student0\<lparr>u_username := ''bob'', u_name := ''Bob'', u_createdAt := 1000000\<rparr>)]"
          "''eve''" "''Eve L''" "[]" 99
          "student0\<lparr>u_username := ''eve'', u_name := ''Eve L'', u_createdAt := 1000000\<rparr>"
          "[(99, student0\<lparr>u_username := ''eve'', u_name := ''Eve L'', u_createdAt := 1000000\<rparr>)]"]
  from t createStudent_bob
  have one: "u_role (student0\<lparr>u_username := ''bob'', u_name := ''Bob'', u_createdAt := 1000000\<rparr>) = Student \<and>
   u_password (student0\<lparr>u_username := ''bob'', u_name := ''Bob'', u_createdAt := 1000000\<rparr>)
     = scrypt_hex env0 ''student123'' (env_salt env0) @ ''.'' @ env_salt env0"
    by blast
  from t createStudent_bob createStudent_eve
  have two: "u_password (student0\<lparr>u_username := ''eve'', u_name := ''Eve L'', u_createdAt := 1000000\<rparr>)
     = u_password (student0\<lparr>u_username := ''bob'', u_name := ''Bob'', u_createdAt := 1000000\<rparr>)"
    by blast
  from one two createStudent_bob createStudent_eve show ?thesis by blast
qed

subsection \<open>The coach gate\<close>

lemma spec_coach_route_gated: "spec_coach_route r \<Longrightarrow> coach_only r"
  by (cases r) simp_all

text \<open>
  Claim C3. On each coach-only route that the specification lists, a request without a
  user, or with a user whose role is not \<open>coach\<close>, is answered 403 with the message
  \<open>Coach access required\<close> and the database is unchanged (the handler is not run); a
  request of a coach is answered by the handler of the route.
\<close>

theorem requireCoach_gate:
  assumes "spec_coach_route r"
  shows "(\<not> is_coach u \<longrightarrow> handle e u r d = (Message 403 ''Coach access required'', d)) \<and>
         (is_coach u \<longrightarrow> handle e u r d = handler e u r d)"
  using spec_coach_route_gated [OF assms]
  by (auto simp: handle_def requireCoach_def is_coach_def split: option.splits)


theorem requireCoach_gate_witness:
  "spec_coach_route (PostPuzzlesDelete (Given 10)) \<and>
   handle env0 (Some (2, student0)) (PostPuzzlesDelete (Given 10)) db0 =
     (Message 403 ''Coach access required'', db0) \<and>
   handle env0 None (PostPuzzlesDelete (Given 10)) db0 =
     (Message 403 ''Coach access required'', db0) \<and>
   handle env0 (Some (1, coach0)) (PostPuzzlesDelete (Given 10)) db0 =
     (Message 200 ''Puzzle deleted successfully'', db0\<lparr>puzzles := []\<rparr>)"
proof -
  have r: "spec_coach_route (PostPuzzlesDelete (Given 10))" by simp
  have s: "\<not> is_coach (Some (2, student0))" by (simp add: is_coach_def student0_def)
  have n: "\<not> is_coach None" by (simp add: is_coach_def)
  have c: "is_coach (Some (1, coach0))" by (simp add: is_coach_def coach0_def)
  have h: "handler env0 (Some (1, coach0)) (PostPuzzlesDelete (Given 10)) db0 =
     (Message 200 ''Puzzle deleted successfully'', db0\<lparr>puzzles := []\<rparr>)"
    by code_simp
  from requireCoach_gate [OF r, of "Some (2, student0)" env0 db0]
       requireCoach_gate [OF r, of None env0 db0]
       requireCoach_gate [OF r, of "Some (1, coach0)" env0 db0] r s n c h
  show ?thesis by simp
qed

subsection \<open>Deleting an assignment\<close>

text \<open>
  Claim C2. For a coach and path parameters that are ObjectIds: if an assignment with
  that id exists for that student with \<open>completed = false\<close>, the request removes it
  (and nothing else) and answers 200; otherwise it answers 404 with the message
  \<open>Assignment not found or already completed\<close> and the database is unchanged.
\<close>

theorem delete_assignment_iff:
  assumes "is_coach u"
  shows "(open_for d s a \<longrightarrow>
            fst (handle e u (DeleteStudentPuzzle (Some s) (Some a)) d)
              = Message 200 ''Assignment deleted successfully'' \<and>
            snd (handle e u (DeleteStudentPuzzle (Some s) (Some a)) d)
              = d\<lparr>assignments := AList.delete a (assignments d)\<rparr> \<and>
            findById a (assignments (snd (handle e u (DeleteStudentPuzzle (Some s) (Some a)) d)))
              = None \<and>
            (\<forall>b. b \<noteq> a \<longrightarrow>
               findById b (assignments (snd (handle e u (DeleteStudentPuzzle (Some s) (Some a)) d)))
                 = findById b (assignments d))) \<and>
         (\<not> open_for d s a \<longrightarrow>
            handle e u (DeleteStudentPuzzle (Some s) (Some a)) d
              = (Message 404 ''Assignment not found or already completed'', d))"
proof -
  from assms have h: "handle e u (DeleteStudentPuzzle (Some s) (Some a)) d
      = delete_student_puzzle (Some s) (Some a) d"
    by (auto simp: handle_def requireCoach_def is_coach_def split: option.splits)
  show ?thesis
    unfolding h
    by (auto simp: delete_student_puzzle_def open_for_def findOneAndDelete_eq findById_delete
             split: option.splits)
qed

lemma open_for_db0: "open_for db0 2 20 \<and> \<not> open_for db0 2 21 \<and> \<not> open_for db0 2 22 \<and> \<not> open_for db0 1 20"
  by code_simp

lemma delete_open_assignment: "handle env0 (Some (1, coach0)) (DeleteStudentPuzzle (Some 2) (Some 20)) db0 =
   (Message 200 ''Assignment deleted successfully'', db0\<lparr>assignments := [(21, done_assignment)]\<rparr>)"
  by code_simp

theorem delete_assignment_iff_witness:
  "is_coach (Some (1, coach0)) \<and> open_for db0 2 20 \<and>
   fst (handle env0 (Some (1, coach0)) (DeleteStudentPuzzle (Some 2) (Some 20)) db0) =
     Message 200 ''Assignment deleted successfully'' \<and>
   findById 20 (assignments
      (snd (handle env0 (Some (1, coach0)) (DeleteStudentPuzzle (Some 2) (Some 20)) db0))) = None \<and>
   snd (handle env0 (Some (1, coach0)) (DeleteStudentPuzzle (Some 2) (Some 20)) db0) =
     db0\<lparr>assignments := [(21, done_assignment)]\<rparr> \<and>
   \<not> open_for db0 2 21 \<and>
   handle env0 (Some (1, coach0)) (DeleteStudentPuzzle (Some 2) (Some 21)) db0 =
     (Message 404 ''Assignment not found or already completed'', db0)"
proof -
  have c: "is_coach (Some (1, coach0))" by (simp add: is_coach_def coach0_def)
  from delete_assignment_iff [OF c, of db0 2 20 env0] open_for_db0
  have removed:
    "fst (handle env0 (Some (1, coach0)) (DeleteStudentPuzzle (Some 2) (Some 20)) db0) =
       Message 200 ''Assignment deleted successfully'' \<and>
     findById 20 (assignments
        (snd (handle env0 (Some (1, coach0)) (DeleteStudentPuzzle (Some 2) (Some 20)) db0))) = None"
    by blast
  from delete_assignment_iff [OF c, of db0 2 21 env0] open_for_db0
  have kept: "handle env0 (Some (1, coach0)) (DeleteStudentPuzzle (Some 2) (Some 21)) db0 =
     (Message 404 ''Assignment not found or already completed'', db0)"
    by blast
  from c removed kept open_for_db0 delete_open_assignment show ?thesis by simp
qed

subsection \<open>Puzzles\<close>

lemma post_puzzles_update_Given:
  "post_puzzles_update (Given i) (Given s) (Given t) d =
     (case findById i (puzzles d) of
        None \<Rightarrow> (Message 404 ''Puzzle not found'', d)
      | Some x \<Rightarrow>
          (Json 200 (JPuzzle i (x\<lparr>pz_solution := s, pz_themes := t\<rparr>)),
           d\<lparr>puzzles := AList.update i (x\<lparr>pz_solution := s, pz_themes := t\<rparr>) (puzzles d)\<rparr>))"
  by (simp add: post_puzzles_update_def findByIdAndUpdate_def findOneAndUpdate_eq
           split: option.splits)

lemma post_puzzles_update_changes:
  "snd (post_puzzles_update pid sol th d) \<noteq> d \<Longrightarrow>
     \<exists>i s t. pid = Given i \<and> sol = Given s \<and> th = Given t"
  by (auto simp: post_puzzles_update_def split: field.splits prod.splits option.splits)

lemma post_puzzles_old:
  "findById j (puzzles d) = Some x \<Longrightarrow> findById j (puzzles (snd (post_puzzles e u b d))) = Some x"
  by (auto simp: post_puzzles_def Let_def findById_insert_doc findById_None_iff insert_doc_Some
           split: option.splits prod.splits dest: findById_Some_ids)

lemma post_puzzles_delete_old:
  "findById j (puzzles (snd (post_puzzles_delete pid d))) = Some y \<Longrightarrow> findById j (puzzles d) = Some y"
  by (auto simp: post_puzzles_delete_def findByIdAndDelete_def findOneAndDelete_eq findById_delete
           split: field.splits option.splits if_splits)

lemma handler_puzzles:
  assumes "findById j (puzzles d) = Some x"
    and "findById j (puzzles (snd (handler e u r d))) = Some y"
  shows "same_origin x y \<and>
         (y \<noteq> x \<longrightarrow> (\<exists>s t. r = PostPuzzlesUpdate (Given j) (Given s) (Given t) \<and>
                           y = x\<lparr>pz_solution := s, pz_themes := t\<rparr>))"
proof (cases r)
  case (PostPuzzles b)
  with assms post_puzzles_old [OF assms(1), of e u b] show ?thesis
    by (simp add: same_origin_def)
next
  case (PostPuzzlesDelete pid)
  with assms post_puzzles_delete_old [of j pid d y] show ?thesis
    by (simp add: same_origin_def)
next
  case (PostPuzzlesUpdate pid sol th)
  show ?thesis
  proof (cases "snd (post_puzzles_update pid sol th d) = d")
    case True
    with assms PostPuzzlesUpdate show ?thesis by (simp add: same_origin_def)
  next
    case False
    then obtain i s t where g: "pid = Given i" "sol = Given s" "th = Given t"
      using post_puzzles_update_changes by blast
    with assms PostPuzzlesUpdate show ?thesis
      by (auto simp: post_puzzles_update_Given findById_update same_origin_def
               split: option.splits if_splits)
  qed
qed (use assms in \<open>simp_all add: frames same_origin_def split: option.splits\<close>)

lemma handle_puzzles:
  assumes "findById j (puzzles d) = Some x"
    and "findById j (puzzles (snd (handle e u r d))) = Some y"
  shows "same_origin x y \<and>
         (y \<noteq> x \<longrightarrow> is_coach u \<and>
            (\<exists>s t. r = PostPuzzlesUpdate (Given j) (Given s) (Given t) \<and>
                    y = x\<lparr>pz_solution := s, pz_themes := t\<rparr>))"
proof (cases "handle e u r d = handler e u r d")
  case True
  with assms handler_puzzles [of j d x e u r y]
  have *: "same_origin x y \<and>
         (y \<noteq> x \<longrightarrow> (\<exists>s t. r = PostPuzzlesUpdate (Given j) (Given s) (Given t) \<and>
                           y = x\<lparr>pz_solution := s, pz_themes := t\<rparr>))" by simp
  have "is_coach u" if "y \<noteq> x"
  proof -
    from * that obtain s t where r: "r = PostPuzzlesUpdate (Given j) (Given s) (Given t)" by blast
    show ?thesis
    proof (rule ccontr)
      assume "\<not> is_coach u"
      then have "handle e u r d = (Message 403 ''Coach access required'', d)"
        by (auto simp: r handle_def requireCoach_def is_coach_def split: option.splits)
      with assms that show False by simp
    qed
  qed
  with * show ?thesis by blast
next
  case False
  with handle_cases [of e u r d] assms show ?thesis by (auto simp: same_origin_def)
qed

text \<open>
  Claim C7. For a coach, POST /api/puzzles/update with an id, a solution and themes sets
  the solution and the themes of the named puzzle and nothing else: its \<open>fen\<close>,
  \<open>createdBy\<close> and \<open>createdAt\<close> are kept and every other puzzle is unchanged. If one
  of the three fields is missing (falsy), the answer is 400 and the database is unchanged.
  Under every request of every route, a puzzle that is stored before and after keeps these
  three fields, and differs at all only by such an update of a coach.
\<close>

theorem puzzle_update_frame:
  "(is_coach u \<and> findById i (puzzles d) = Some x \<longrightarrow>
      handle e u (PostPuzzlesUpdate (Given i) (Given s) (Given t)) d =
        (Json 200 (JPuzzle i (x\<lparr>pz_solution := s, pz_themes := t\<rparr>)),
         d\<lparr>puzzles := AList.update i (x\<lparr>pz_solution := s, pz_themes := t\<rparr>) (puzzles d)\<rparr>) \<and>
      findById i (puzzles (snd (handle e u (PostPuzzlesUpdate (Given i) (Given s) (Given t)) d))) =
        Some (x\<lparr>pz_solution := s, pz_themes := t\<rparr>) \<and>
      same_origin x (x\<lparr>pz_solution := s, pz_themes := t\<rparr>) \<and>
      (\<forall>j. j \<noteq> i \<longrightarrow>
         findById j (puzzles (snd (handle e u (PostPuzzlesUpdate (Given i) (Given s) (Given t)) d))) =
           findById j (puzzles d))) \<and>
   (is_coach u \<and> (pid = Missing \<or> sol = Missing \<or> th = Missing) \<longrightarrow>
      handle e u (PostPuzzlesUpdate pid sol th) d = (Message 400 ''Missing required fields'', d)) \<and>
   (findById j (puzzles d) = Some x \<and> findById j (puzzles (snd (handle e u r d))) = Some y \<longrightarrow>
      same_origin x y \<and>
      (y \<noteq> x \<longrightarrow> is_coach u \<and>
         (\<exists>s t. r = PostPuzzlesUpdate (Given j) (Given s) (Given t) \<and>
                 y = x\<lparr>pz_solution := s, pz_themes := t\<rparr>)))"
proof (intro conjI impI allI)
  assume a: "is_coach u \<and> findById i (puzzles d) = Some x"
  then have h: "handle e u (PostPuzzlesUpdate (Given i) (Given s) (Given t)) d =
     post_puzzles_update (Given i) (Given s) (Given t) d"
    by (auto simp: handle_def requireCoach_def is_coach_def split: option.splits)
  from a show "handle e u (PostPuzzlesUpdate (Given i) (Given s) (Given t)) d =
        (Json 200 (JPuzzle i (x\<lparr>pz_solution := s, pz_themes := t\<rparr>)),
         d\<lparr>puzzles := AList.update i (x\<lparr>pz_solution := s, pz_themes := t\<rparr>) (puzzles d)\<rparr>)"
    by (simp add: h post_puzzles_update_Given)
  from a show "findById i (puzzles (snd (handle e u (PostPuzzlesUpdate (Given i) (Given s) (Given t)) d))) =
        Some (x\<lparr>pz_solution := s, pz_themes := t\<rparr>)"
    by (simp add: h post_puzzles_update_Given findById_update)
  show "same_origin x (x\<lparr>pz_solution := s, pz_themes := t\<rparr>)"
    by (simp add: same_origin_def)
  fix j assume "j \<noteq> i"
  with a show "findById j (puzzles (snd (handle e u (PostPuzzlesUpdate (Given i) (Given s) (Given t)) d))) =
           findById j (puzzles d)"
    by (simp add: h post_puzzles_update_Given findById_update)
next
  assume a: "is_coach u \<and> (pid = Missing \<or> sol = Missing \<or> th = Missing)"
  then have h: "handle e u (PostPuzzlesUpdate pid sol th) d = post_puzzles_update pid sol th d"
    by (auto simp: handle_def requireCoach_def is_coach_def split: option.splits)
  from a show "handle e u (PostPuzzlesUpdate pid sol th) d = (Message 400 ''Missing required fields'', d)"
    by (auto simp: h post_puzzles_update_def)
next
  assume a: "findById j (puzzles d) = Some x \<and> findById j (puzzles (snd (handle e u r d))) = Some y"
  with handle_puzzles [of j d x e u r y]
  show "same_origin x y" by simp
next
  assume a: "findById j (puzzles d) = Some x \<and> findById j (puzzles (snd (handle e u r d))) = Some y"
  assume "y \<noteq> x"
  with a handle_puzzles [of j d x e u r y]
  show "is_coach u" by simp
next
  assume a: "findById j (puzzles d) = Some x \<and> findById j (puzzles (snd (handle e u r d))) = Some y"
  assume "y \<noteq> x"
  with a handle_puzzles [of j d x e u r y]
  show "\<exists>s t. r = PostPuzzlesUpdate (Given j) (Given s) (Given t) \<and>
                 y = x\<lparr>pz_solution := s, pz_themes := t\<rparr>" by simp
qed

lemma update_puzzle0: "handle env0 (Some (1, coach0)) (PostPuzzlesUpdate (Given 10) (Given [''a7a8r'']) (Given [''underpromotion''])) db0 =
     (Json 200 (JPuzzle 10 (puzzle0\<lparr>pz_solution := [''a7a8r''], pz_themes := [''underpromotion'']\<rparr>)),
      db0\<lparr>puzzles := [(10, puzzle0\<lparr>pz_solution := [''a7a8r''], pz_themes := [''underpromotion'']\<rparr>)]\<rparr>)"
  by code_simp

theorem puzzle_update_frame_witness:
  "is_coach (Some (1, coach0)) \<and> findById 10 (puzzles db0) = Some puzzle0 \<and>
   handle env0 (Some (1, coach0))
      (PostPuzzlesUpdate (Given 10) (Given [''a7a8r'']) (Given [''underpromotion''])) db0 =
     (Json 200 (JPuzzle 10 (puzzle0\<lparr>pz_solution := [''a7a8r''], pz_themes := [''underpromotion'']\<rparr>)),
      db0\<lparr>puzzles := [(10, puzzle0\<lparr>pz_solution := [''a7a8r''], pz_themes := [''underpromotion'']\<rparr>)]\<rparr>) \<and>
   findById 10 (puzzles (snd (handle env0 (Some (1, coach0))
      (PostPuzzlesUpdate (Given 10) (Given [''a7a8r'']) (Given [''underpromotion''])) db0))) =
     Some (puzzle0\<lparr>pz_solution := [''a7a8r''], pz_themes := [''underpromotion'']\<rparr>) \<and>
   same_origin puzzle0 (puzzle0\<lparr>pz_solution := [''a7a8r''], pz_themes := [''underpromotion'']\<rparr>) \<and>
   handle env0 (Some (1, coach0))
      (PostPuzzlesUpdate (Given 10) Missing (Given [''underpromotion''])) db0 =
     (Message 400 ''Missing required fields'', db0)"
proof -
  have c: "is_coach (Some (1, coach0))" by (simp add: is_coach_def coach0_def)
  have f: "findById 10 (puzzles db0) = Some puzzle0" by (simp add: findById_def db0_def)
  note t = puzzle_update_frame [of "Some (1, coach0)" 10 db0 puzzle0 env0 "[''a7a8r'']"
         "[''underpromotion'']" "Given 10" Missing "Given [''underpromotion'']" 10
         "PostPuzzlesUpdate (Given 10) (Given [''a7a8r'']) (Given [''underpromotion''])"
         "puzzle0\<lparr>pz_solution := [''a7a8r''], pz_themes := [''underpromotion'']\<rparr>"]
  from t c f
  have updated:
    "findById 10 (puzzles (snd (handle env0 (Some (1, coach0))
        (PostPuzzlesUpdate (Given 10) (Given [''a7a8r'']) (Given [''underpromotion''])) db0))) =
       Some (puzzle0\<lparr>pz_solution := [''a7a8r''], pz_themes := [''underpromotion'']\<rparr>) \<and>
     same_origin puzzle0 (puzzle0\<lparr>pz_solution := [''a7a8r''], pz_themes := [''underpromotion'']\<rparr>)"
    by blast
  from t c
  have missing: "handle env0 (Some (1, coach0))
      (PostPuzzlesUpdate (Given 10) Missing (Given [''underpromotion''])) db0 =
     (Message 400 ''Missing required fields'', db0)"
    by blast
  from c f updated missing update_puzzle0 show ?thesis by simp
qed

subsection \<open>Assignments\<close>

lemma post_assignments_old:
  "findById a (assignments d) = Some x \<Longrightarrow>
     findById a (assignments (snd (post_assignments e p s d))) = Some x"
  by (auto simp: post_assignments_def Let_def findById_insert_doc insert_doc_Some
           split: option.splits prod.splits field.splits dest: findById_Some_ids)

lemma post_assignments_completed:
  "completed_of d a = Some c \<Longrightarrow> completed_of (snd (post_assignments e p s d)) a = Some c"
  by (auto simp: completed_of_def post_assignments_old)

lemma post_complete_eq:
  "post_complete e (Some (uid, usr)) (Some a) (Some ms) d =
     (if u_role usr \<noteq> Student then (Status 403, d)
      else case findById a (assignments d) of
             None \<Rightarrow> (Message 404 ''Assignment not found or already completed'', d)
           | Some x \<Rightarrow>
               if as_studentId x = uid \<and> \<not> as_completed x
               then (Json 200 (JAssignment a
                       (x\<lparr>as_completed := True,
                          as_attempts := as_attempts x @ [\<lparr>at_moves = ms, at_timestamp = env_now e\<rparr>]\<rparr>)),
                     d\<lparr>assignments := AList.update a
                       (x\<lparr>as_completed := True,
                          as_attempts := as_attempts x @ [\<lparr>at_moves = ms, at_timestamp = env_now e\<rparr>]\<rparr>)
                       (assignments d)\<rparr>)
               else (Message 404 ''Assignment not found or already completed'', d))"
  by (simp add: post_complete_def findOneAndUpdate_eq split: option.splits)

lemma post_complete_changes:
  "snd (post_complete e u aid mv d) \<noteq> d \<Longrightarrow>
     \<exists>uid usr a ms. u = Some (uid, usr) \<and> aid = Some a \<and> mv = Some ms"
  by (auto simp: post_complete_def split: option.splits prod.splits if_splits)

lemma post_attempt_eq:
  "post_attempt e (Some (uid, usr)) (Some a) (Some ms) d =
     (if u_role usr \<noteq> Student then (Status 403, d)
      else case findById a (assignments d) of
             None \<Rightarrow> (Message 404 ''Assignment not found'', d)
           | Some x \<Rightarrow>
               if as_studentId x = uid
               then (Json 200 (JAssignment a
                       (x\<lparr>as_attempts := as_attempts x @ [\<lparr>at_moves = ms, at_timestamp = env_now e\<rparr>]\<rparr>)),
                     d\<lparr>assignments := AList.update a
                       (x\<lparr>as_attempts := as_attempts x @ [\<lparr>at_moves = ms, at_timestamp = env_now e\<rparr>]\<rparr>)
                       (assignments d)\<rparr>)
               else (Message 404 ''Assignment not found'', d))"
  by (simp add: post_attempt_def findOneAndUpdate_eq split: option.splits)

lemma post_attempt_changes:
  "snd (post_attempt e u aid mv d) \<noteq> d \<Longrightarrow>
     \<exists>uid usr a ms. u = Some (uid, usr) \<and> aid = Some a \<and> mv = Some ms"
  by (auto simp: post_attempt_def split: option.splits prod.splits if_splits)

lemma post_attempt_completed:
  "completed_of (snd (post_attempt e u aid mv d)) a = completed_of d a"
proof (cases "snd (post_attempt e u aid mv d) = d")
  case True
  then show ?thesis by simp
next
  case False
  then obtain uid usr b ms where "u = Some (uid, usr)" "aid = Some b" "mv = Some ms"
    using post_attempt_changes by blast
  then show ?thesis
    by (auto simp: post_attempt_eq completed_of_def findById_update split: option.splits)
qed



lemma post_complete_completed:
  assumes "completed_of d a = Some c"
  shows "completed_of (snd (post_complete e u aid mv d)) a = Some c \<or>
         (c = False \<and> completed_of (snd (post_complete e u aid mv d)) a = Some True \<and>
          (\<exists>uid usr ms x. u = Some (uid, usr) \<and> u_role usr = Student \<and> aid = Some a \<and>
              mv = Some ms \<and> findById a (assignments d) = Some x \<and> as_studentId x = uid))"
proof (cases "snd (post_complete e u aid mv d) = d")
  case True
  with assms show ?thesis by simp
next
  case False
  then obtain uid usr b ms where "u = Some (uid, usr)" "aid = Some b" "mv = Some ms"
    using post_complete_changes by blast
  with assms show ?thesis
    by (auto simp: post_complete_eq completed_of_def findById_update split: option.splits if_splits)
qed

lemma delete_student_puzzle_completed:
  "completed_of d a = Some True \<Longrightarrow> completed_of (snd (delete_student_puzzle sid pid d)) a = Some True"
  by (auto simp: delete_student_puzzle_def completed_of_def findOneAndDelete_eq findById_delete
           split: option.splits)

lemma delete_student_puzzle_flag:
  "completed_of d a = Some c \<Longrightarrow> completed_of (snd (delete_student_puzzle sid pid d)) a = Some c'
     \<Longrightarrow> c' = c"
  by (auto simp: delete_student_puzzle_def completed_of_def findOneAndDelete_eq findById_delete
           split: option.splits if_splits)

lemma handler_completed:
  assumes "completed_of d a = Some c" and "completed_of (snd (handler e u r d)) a = Some c'"
  shows "c' = c \<or>
         (c = False \<and> c' = True \<and>
          (\<exists>uid usr ms x. u = Some (uid, usr) \<and> u_role usr = Student \<and>
              r = PostComplete (Some a) (Some ms) \<and>
              findById a (assignments d) = Some x \<and> as_studentId x = uid))"
proof (cases r)
  case (PostAssignments p s)
  with assms post_assignments_completed [OF assms(1), of e p s] show ?thesis by simp
next
  case (PostComplete aid mv)
  with assms post_complete_completed [OF assms(1), of e u aid mv] show ?thesis by auto
next
  case (PostAttempt aid mv)
  with assms post_attempt_completed [of e u aid mv d a] show ?thesis by simp
next
  case (DeleteStudentPuzzle sid pid)
  with assms delete_student_puzzle_flag [of d a c sid pid c'] show ?thesis by simp
qed (use assms in \<open>auto simp: frames completed_of_def split: option.splits\<close>)

lemma handler_completed_stays:
  assumes "completed_of d a = Some True"
  shows "completed_of (snd (handler e u r d)) a = Some True"
proof (cases r)
  case (PostAssignments p s)
  with post_assignments_completed [OF assms, of e p s] show ?thesis by simp
next
  case (PostComplete aid mv)
  with post_complete_completed [OF assms, of e u aid mv] show ?thesis by auto
next
  case (PostAttempt aid mv)
  with assms post_attempt_completed [of e u aid mv d a] show ?thesis by simp
next
  case (DeleteStudentPuzzle sid pid)
  with delete_student_puzzle_completed [OF assms, of sid pid] show ?thesis by simp
qed (use assms in \<open>auto simp: frames completed_of_def split: option.splits\<close>)

lemma handle_completed_stays:
  "completed_of d a = Some True \<Longrightarrow> completed_of (snd (handle e u r d)) a = Some True"
  using handle_cases [of e u r d] handler_completed_stays [of d a e u r] by auto

lemma run_completed_stays:
  "completed_of d a = Some True \<Longrightarrow> completed_of (run qs d) a = Some True"
  by (induction qs arbitrary: d) (simp_all add: handle_completed_stays)

lemma handle_completed:
  assumes "completed_of d a = Some c" and "completed_of (snd (handle e u r d)) a = Some c'"
  shows "c' = c \<or>
         (c = False \<and> c' = True \<and>
          (\<exists>uid usr ms x. u = Some (uid, usr) \<and> u_role usr = Student \<and>
              r = PostComplete (Some a) (Some ms) \<and>
              findById a (assignments d) = Some x \<and> as_studentId x = uid))"
  using handle_cases [of e u r d] handler_completed [of d a c e u r c'] assms by auto


text \<open>
  Claim C1. Under every request, and every sequence of requests, an assignment whose
  completed flag is true stays stored with the flag true. The flag of a stored assignment
  goes from false to true only by POST /api/assignments/:assignmentId/complete on that
  assignment, requested by the student it belongs to; such a request on an open assignment
  sets the flag, and on any other assignment it is answered 404 and changes nothing. The
  attempt route leaves every flag as it is and, for the student the assignment belongs to,
  appends the attempt.
\<close>

theorem completion_monotonic:
  "(completed_of d a = Some True \<longrightarrow>
      completed_of (snd (handle e u r d)) a = Some True \<and>
      completed_of (run qs d) a = Some True) \<and>
   (completed_of d a = Some False \<and> completed_of (snd (handle e u r d)) a = Some True \<longrightarrow>
      (\<exists>uid usr ms x. u = Some (uid, usr) \<and> u_role usr = Student \<and>
          r = PostComplete (Some a) (Some ms) \<and>
          findById a (assignments d) = Some x \<and> as_studentId x = uid)) \<and>
   (u = Some (uid, usr) \<and> u_role usr = Student \<and>
    findById a (assignments d) = Some x \<and> as_studentId x = uid \<and> \<not> as_completed x \<longrightarrow>
      completed_of (snd (handle e u (PostComplete (Some a) (Some ms)) d)) a = Some True) \<and>
   (u = Some (uid, usr) \<and> u_role usr = Student \<and> \<not> open_for d uid a \<longrightarrow>
      handle e u (PostComplete (Some a) (Some ms)) d =
        (Message 404 ''Assignment not found or already completed'', d)) \<and>
   completed_of (snd (handle e u (PostAttempt aid mv) d)) a = completed_of d a \<and>
   (u = Some (uid, usr) \<and> u_role usr = Student \<and>
    findById a (assignments d) = Some x \<and> as_studentId x = uid \<longrightarrow>
      findById a (assignments (snd (handle e u (PostAttempt (Some a) (Some ms)) d))) =
        Some (x\<lparr>as_attempts := as_attempts x @ [\<lparr>at_moves = ms, at_timestamp = env_now e\<rparr>]\<rparr>))"
proof -
  have stays: "completed_of d a = Some True \<longrightarrow>
      completed_of (snd (handle e u r d)) a = Some True \<and>
      completed_of (run qs d) a = Some True"
    by (simp add: handle_completed_stays run_completed_stays)
  have only: "completed_of d a = Some False \<and> completed_of (snd (handle e u r d)) a = Some True \<longrightarrow>
      (\<exists>uid usr ms x. u = Some (uid, usr) \<and> u_role usr = Student \<and>
          r = PostComplete (Some a) (Some ms) \<and>
          findById a (assignments d) = Some x \<and> as_studentId x = uid)"
    using handle_completed [of d a False e u r True] by blast
  have sets: "u = Some (uid, usr) \<and> u_role usr = Student \<and>
    findById a (assignments d) = Some x \<and> as_studentId x = uid \<and> \<not> as_completed x \<longrightarrow>
      completed_of (snd (handle e u (PostComplete (Some a) (Some ms)) d)) a = Some True"
    by (auto simp: handle_def post_complete_eq completed_of_def findById_update)
  have refused: "u = Some (uid, usr) \<and> u_role usr = Student \<and> \<not> open_for d uid a \<longrightarrow>
      handle e u (PostComplete (Some a) (Some ms)) d =
        (Message 404 ''Assignment not found or already completed'', d)"
    by (auto simp: handle_def post_complete_eq open_for_def split: option.splits)
  have attempt: "completed_of (snd (handle e u (PostAttempt aid mv) d)) a = completed_of d a"
    by (simp add: handle_def post_attempt_completed)
  have appends: "u = Some (uid, usr) \<and> u_role usr = Student \<and>
    findById a (assignments d) = Some x \<and> as_studentId x = uid \<longrightarrow>
      findById a (assignments (snd (handle e u (PostAttempt (Some a) (Some ms)) d))) =
        Some (x\<lparr>as_attempts := as_attempts x @ [\<lparr>at_moves = ms, at_timestamp = env_now e\<rparr>]\<rparr>)"
    by (auto simp: handle_def post_attempt_eq findById_update)
  from stays only sets refused attempt appends show ?thesis by blast
qed

lemma complete_open_assignment:
  "completed_of db0 20 = Some False \<and> completed_of db0 21 = Some True \<and>
   completed_of (snd (handle env0 (Some (2, student0)) (PostComplete (Some 20) (Some [''a7a8q''])) db0)) 20
     = Some True \<and>
   handle env0 (Some (2, student0)) (PostComplete (Some 21) (Some [''a7a8q''])) db0
     = (Message 404 ''Assignment not found or already completed'', db0)"
  by code_simp

lemma attempt_open_assignment:
  "findById 20 (assignments (snd (handle env0 (Some (2, student0)) (PostAttempt (Some 20) (Some [''a7a8n''])) db0)))
     = Some (open_assignment\<lparr>as_attempts := [\<lparr>at_moves = [''a7a8n''], at_timestamp = 1000000\<rparr>]\<rparr>)"
  by code_simp

theorem completion_monotonic_witness:
  "completed_of db0 21 = Some True \<and>
   completed_of (snd (handle env0 (Some (2, student0)) (PostComplete (Some 21) (Some [''a7a8q''])) db0)) 21
     = Some True \<and>
   \<not> open_for db0 2 21 \<and>
   handle env0 (Some (2, student0)) (PostComplete (Some 21) (Some [''a7a8q''])) db0
     = (Message 404 ''Assignment not found or already completed'', db0) \<and>
   completed_of db0 20 = Some False \<and> u_role student0 = Student \<and>
   findById 20 (assignments db0) = Some open_assignment \<and> as_studentId open_assignment = 2 \<and>
   \<not> as_completed open_assignment \<and>
   completed_of (snd (handle env0 (Some (2, student0)) (PostComplete (Some 20) (Some [''a7a8q''])) db0)) 20
     = Some True \<and>
   completed_of (snd (handle env0 (Some (2, student0)) (PostAttempt (Some 20) (Some [''a7a8n''])) db0)) 20
     = Some False \<and>
   findById 20 (assignments (snd (handle env0 (Some (2, student0)) (PostAttempt (Some 20) (Some [''a7a8n''])) db0)))
     = Some (open_assignment\<lparr>as_attempts := [\<lparr>at_moves = [''a7a8n''], at_timestamp = 1000000\<rparr>]\<rparr>)"
proof -
  have h: "u_role student0 = Student \<and> findById 20 (assignments db0) = Some open_assignment \<and>
           as_studentId open_assignment = 2 \<and> \<not> as_completed open_assignment"
    by code_simp
  note t = completion_monotonic [of db0 21 env0 "Some (2, student0)"
             "PostComplete (Some 21) (Some [''a7a8q''])" "[]" 2 student0 done_assignment
             "[''a7a8q'']" "Some 20" "Some [''a7a8n'']"]
  from t complete_open_assignment
  have stays: "completed_of (snd (handle env0 (Some (2, student0)) (PostComplete (Some 21) (Some [''a7a8q''])) db0)) 21
     = Some True" by blast
  from t h open_for_db0
  have refused: "handle env0 (Some (2, student0)) (PostComplete (Some 21) (Some [''a7a8q''])) db0
     = (Message 404 ''Assignment not found or already completed'', db0)" by blast
  note t2 = completion_monotonic [of db0 20 env0 "Some (2, student0)"
             "PostComplete (Some 20) (Some [''a7a8q''])" "[]" 2 student0 open_assignment
             "[''a7a8q'']" "Some 20" "Some [''a7a8n'']"]
  from t2 h
  have sets: "completed_of (snd (handle env0 (Some (2, student0)) (PostComplete (Some 20) (Some [''a7a8q''])) db0)) 20
     = Some True" by blast
  from t2 complete_open_assignment
  have attempt: "completed_of (snd (handle env0 (Some (2, student0)) (PostAttempt (Some 20) (Some [''a7a8n''])) db0)) 20
     = Some False" by simp
  from h stays refused sets attempt open_for_db0 complete_open_assignment attempt_open_assignment
  show ?thesis by simp
qed

subsection \<open>Class schedules\<close>

lemma post_class_schedules_old:
  "findById s (schedules d) = Some x \<Longrightarrow>
     findById s (schedules (snd (post_class_schedules e u b d))) = Some x"
  by (auto simp: post_class_schedules_def Let_def findById_insert_doc insert_doc_Some
           split: option.splits prod.splits dest: findById_Some_ids)

lemma post_start_eq:
  "post_start e (Some (uid, usr)) (Some s) d =
     (case findById s (schedules d) of
        None \<Rightarrow> (Message 404 ''Schedule not found'', d)
      | Some x \<Rightarrow>
          if cs_coachId x \<noteq> uid then (Message 404 ''Schedule not found'', d)
          else if env_now e < cs_startTime x + minutes (-10)
          then (Message 400 ''Too early to start class'', d)
          else if cs_status x = Completed then (Message 400 ''Class is already completed'', d)
          else (Json 200 (JSchedule s (x\<lparr>cs_status := InProgress, cs_actualStartTime := Some (env_now e)\<rparr>)),
                d\<lparr>schedules := AList.update s
                      (x\<lparr>cs_status := InProgress, cs_actualStartTime := Some (env_now e)\<rparr>)
                      (schedules d)\<rparr>))"
  by (simp add: post_start_def start_read_def start_save_def findOne_eq Let_def
        findById_update split: option.splits)

lemma post_start_changes:
  "snd (post_start e u sid d) \<noteq> d \<Longrightarrow> \<exists>uid usr s. u = Some (uid, usr) \<and> sid = Some s"
  by (auto simp: post_start_def start_read_def split: option.splits prod.splits sum.splits)

lemma post_end_eq:
  "post_end e (Some (uid, usr)) (Some s) d =
     (case findById s (schedules d) of
        None \<Rightarrow> (Message 404 ''Schedule not found or cannot be ended'', d)
      | Some x \<Rightarrow>
          if cs_coachId x = uid \<and> cs_status x = InProgress
          then (Json 200 (JSchedule s (x\<lparr>cs_status := Completed, cs_actualEndTime := Some (env_now e)\<rparr>)),
                d\<lparr>schedules := AList.update s
                      (x\<lparr>cs_status := Completed, cs_actualEndTime := Some (env_now e)\<rparr>)
                      (schedules d)\<rparr>)
          else (Message 404 ''Schedule not found or cannot be ended'', d))"
  by (simp add: post_end_def findOneAndUpdate_eq split: option.splits)

lemma post_end_changes:
  "snd (post_end e u sid d) \<noteq> d \<Longrightarrow> \<exists>uid usr s. u = Some (uid, usr) \<and> sid = Some s"
  by (auto simp: post_end_def split: option.splits prod.splits)

lemma post_attend_eq:
  "post_attend (Some (uid, usr)) (Some s) d =
     (if u_role usr \<noteq> Student then (Status 403, d)
      else case findById s (schedules d) of
        None \<Rightarrow> (Message 404 ''Schedule not found or attendance already marked'', d)
      | Some x \<Rightarrow>
          if cs_status x = InProgress \<and> uid \<in> set (cs_studentIds x) \<and> uid \<notin> set (cs_attendees x)
          then (Json 200 (JSchedule s (x\<lparr>cs_attendees := addToSet (cs_attendees x) uid\<rparr>)),
                d\<lparr>schedules := AList.update s
                      (x\<lparr>cs_attendees := addToSet (cs_attendees x) uid\<rparr>) (schedules d)\<rparr>)
          else (Message 404 ''Schedule not found or attendance already marked'', d))"
  by (simp add: post_attend_def findOneAndUpdate_eq split: option.splits)

lemma post_attend_changes:
  "snd (post_attend u sid d) \<noteq> d \<Longrightarrow> \<exists>uid usr s. u = Some (uid, usr) \<and> sid = Some s"
  by (auto simp: post_attend_def split: option.splits prod.splits if_splits)

lemma post_start_completed:
  assumes "status_of d s = Some Completed"
  shows "status_of (snd (post_start e u sid d)) s = Some Completed"
proof (cases "snd (post_start e u sid d) = d")
  case True
  with assms show ?thesis by simp
next
  case False
  then obtain uid usr s' where "u = Some (uid, usr)" "sid = Some s'"
    using post_start_changes by blast
  with assms show ?thesis
    by (auto simp: post_start_eq status_of_def findById_update split: option.splits if_splits)
qed

lemma post_end_completed:
  assumes "status_of d s = Some Completed"
  shows "status_of (snd (post_end e u sid d)) s = Some Completed"
proof (cases "snd (post_end e u sid d) = d")
  case True
  with assms show ?thesis by simp
next
  case False
  then obtain uid usr s' where "u = Some (uid, usr)" "sid = Some s'"
    using post_end_changes by blast
  with assms show ?thesis
    by (auto simp: post_end_eq status_of_def findById_update split: option.splits if_splits)
qed

lemma post_attend_completed:
  assumes "status_of d s = Some Completed"
  shows "status_of (snd (post_attend u sid d)) s = Some Completed"
proof (cases "snd (post_attend u sid d) = d")
  case True
  with assms show ?thesis by simp
next
  case False
  then obtain uid usr s' where "u = Some (uid, usr)" "sid = Some s'"
    using post_attend_changes by blast
  with assms show ?thesis
    by (auto simp: post_attend_eq status_of_def findById_update split: option.splits if_splits)
qed

lemma post_class_schedules_completed:
  "status_of d s = Some Completed \<Longrightarrow>
     status_of (snd (post_class_schedules e u b d)) s = Some Completed"
  by (auto simp: status_of_def post_class_schedules_old)

lemma handler_status_stays:
  assumes "status_of d s = Some Completed"
  shows "status_of (snd (handler e u r d)) s = Some Completed"
proof (cases r)
  case (PostClassSchedules b)
  with post_class_schedules_completed [OF assms, of e u b] show ?thesis by simp
next
  case (PostStart sid)
  with post_start_completed [OF assms, of e u sid] show ?thesis by simp
next
  case (PostEnd sid)
  with post_end_completed [OF assms, of e u sid] show ?thesis by simp
next
  case (PostAttend sid)
  with post_attend_completed [OF assms, of u sid] show ?thesis by simp
qed (use assms in \<open>auto simp: frames status_of_def split: option.splits\<close>)

lemma handle_status_stays:
  "status_of d s = Some Completed \<Longrightarrow> status_of (snd (handle e u r d)) s = Some Completed"
  using handle_cases [of e u r d] handler_status_stays [of d s e u r] by auto

lemma run_status_stays:
  "status_of d s = Some Completed \<Longrightarrow> status_of (run qs d) s = Some Completed"
  by (induction qs arbitrary: d) (simp_all add: handle_status_stays)


subsection \<open>A start request served in two parts\<close>

lemma start_read_Inr:
  "start_read e u sid d = Inr (s, now) \<Longrightarrow>
     \<exists>uid usr x. u = Some (uid, usr) \<and> sid = Some s \<and> now = env_now e \<and>
        findById s (schedules d) = Some x \<and> cs_coachId x = uid \<and> cs_status x \<noteq> Completed \<and>
        \<not> env_now e < cs_startTime x + minutes (-10)"
  by (auto simp: start_read_def findOne_eq Let_def split: option.splits prod.splits if_splits)

lemma start_read_not_completed:
  "start_read e u sid d = Inr (s', now) \<Longrightarrow> status_of d s = Some Completed \<Longrightarrow> s' \<noteq> s"
  by (auto simp: status_of_def dest!: start_read_Inr)

lemma start_save_other:
  "s' \<noteq> s \<Longrightarrow> status_of (snd (start_save (s', now) d)) s = status_of d s"
  by (auto simp: start_save_def status_of_def Let_def findById_update split: option.splits)

lemma set_update_subset: "set (AList.update k v al) \<subseteq> insert (k, v) (set al)"
  by (induction al) auto

lemma set_delete_subset: "set (AList.delete k al) \<subseteq> set al"
  by (auto simp: AList.delete_eq)

lemma in_flight_iff: "in_flight sv s \<longleftrightarrow> (\<exists>n now. (n, s, now) \<in> set (sv_pending sv))"
  by (force simp: in_flight_def)

lemma step_final:
  assumes c: "status_of (sv_db sv) s = Some Completed" and f: "\<not> in_flight sv s"
  shows "status_of (sv_db (step ev sv)) s = Some Completed \<and> \<not> in_flight (step ev sv) s"
proof (cases ev)
  case (Request e u r)
  with c f handle_status_stays [of "sv_db sv" s e u r] show ?thesis
    by (simp add: in_flight_iff)
next
  case (StartRead n e u sid)
  show ?thesis
  proof (cases "requireCoach u")
    case (Some denied)
    with c f StartRead show ?thesis by simp
  next
    case None
    show ?thesis
    proof (cases "start_read e u sid (sv_db sv)")
      case (Inl answer)
      with c f StartRead None show ?thesis by simp
    next
      case (Inr p)
      obtain s' now where p: "p = (s', now)" by (cases p)
      from Inr p c have "s' \<noteq> s" by (auto dest: start_read_not_completed)
      with f set_update_subset [of n p "sv_pending sv"]
      have "\<not> in_flight (sv\<lparr>sv_pending := AList.update n p (sv_pending sv)\<rparr>) s"
        by (auto simp: in_flight_iff p)
      with c StartRead None Inr show ?thesis by simp
    qed
  qed
next
  case (StartSave n)
  show ?thesis
  proof (cases "map_of (sv_pending sv) n")
    case None
    with c f StartSave show ?thesis by simp
  next
    case (Some p)
    obtain s' now where p: "p = (s', now)" by (cases p)
    from Some p have "(n, s', now) \<in> set (sv_pending sv)" by (simp add: map_of_SomeD)
    with f have "s' \<noteq> s" by (auto simp: in_flight_iff)
    with c have kept: "status_of (snd (start_save p (sv_db sv))) s = Some Completed"
      by (simp add: p start_save_other)
    from f set_delete_subset [of n "sv_pending sv"]
    have "\<not> in_flight (sv\<lparr>sv_db := snd (start_save p (sv_db sv)),
                          sv_pending := AList.delete n (sv_pending sv)\<rparr>) s"
      by (auto simp: in_flight_iff)
    with kept StartSave Some show ?thesis by simp
  qed
qed

lemma exec_final:
  "status_of (sv_db sv) s = Some Completed \<Longrightarrow> \<not> in_flight sv s \<Longrightarrow>
     status_of (sv_db (exec evs sv)) s = Some Completed \<and> \<not> in_flight (exec evs sv) s"
proof (induction evs arbitrary: sv)
  case Nil
  then show ?case by simp
next
  case (Cons ev evs)
  from step_final [OF Cons.prems] Cons.IH [of "step ev sv"] show ?case by simp
qed

lemma start_in_turn:
  assumes "map_of (sv_pending sv) n = None"
  shows "sv_db (exec [StartRead n e u sid, StartSave n] sv) = snd (handle e u (PostStart sid) (sv_db sv))"
proof (cases "requireCoach u")
  case (Some denied)
  with assms show ?thesis by (simp add: handle_def)
next
  case None
  show ?thesis
  proof (cases "start_read e u sid (sv_db sv)")
    case (Inl answer)
    with assms None show ?thesis by (simp add: handle_def post_start_def)
  next
    case (Inr p)
    with None show ?thesis by (simp add: handle_def post_start_def update_conv')
  qed
qed

lemma start_on_completed:
  assumes "findById s (schedules d) = Some x" and "cs_status x = Completed"
  shows "handle e (Some (uid, usr)) (PostStart (Some s)) d =
           (if u_role usr \<noteq> Coach then Message 403 ''Coach access required''
            else if cs_coachId x \<noteq> uid then Message 404 ''Schedule not found''
            else if env_now e < cs_startTime x + minutes (-10)
            then Message 400 ''Too early to start class''
            else Message 400 ''Class is already completed'', d)"
  using assms by (simp add: handle_def requireCoach_def post_start_eq)

text \<open>
  Claim C6, as the code has it. A schedule whose status is \<open>completed\<close>, with no start
  request under way on it (one that has read it and has not saved), stays stored with that
  status under every event, and so under every execution, whether or not requests are
  served in turns; no start request on it gets under way. Served with nothing between its
  read and its save, a start request is the single request \<open>handle\<close> answers. On a
  completed schedule start changes nothing and answers a coach 404
  \<open>Schedule not found\<close> when the schedule is of another coach, else 400
  \<open>Too early to start class\<close> when the clock is more than ten minutes before the
  scheduled start, else 400 \<open>Class is already completed\<close>. End, for a coach, and attend,
  for a student, answer 404 and change nothing when the schedule is not \<open>in_progress\<close>.
\<close>

theorem completed_schedule_is_final:
  "(status_of (sv_db sv) s = Some Completed \<and> \<not> in_flight sv s \<longrightarrow>
      status_of (sv_db (step ev sv)) s = Some Completed \<and> \<not> in_flight (step ev sv) s \<and>
      status_of (sv_db (exec evs sv)) s = Some Completed) \<and>
   (map_of (sv_pending sv) n = None \<longrightarrow>
      sv_db (exec [StartRead n e u sid, StartSave n] sv) =
        snd (handle e u (PostStart sid) (sv_db sv))) \<and>
   (status_of d s = Some Completed \<longrightarrow>
      status_of (snd (handle e u r d)) s = Some Completed \<and>
      status_of (run qs d) s = Some Completed \<and>
      snd (handle e u (PostStart (Some s)) d) = d) \<and>
   (u = Some (uid, usr) \<and> u_role usr = Coach \<and> findById s (schedules d) = Some x \<and>
    cs_status x = Completed \<longrightarrow>
      handle e u (PostStart (Some s)) d =
        (if cs_coachId x \<noteq> uid then Message 404 ''Schedule not found''
         else if env_now e < cs_startTime x + minutes (-10)
         then Message 400 ''Too early to start class''
         else Message 400 ''Class is already completed'', d)) \<and>
   (u = Some (uid, usr) \<and> u_role usr = Coach \<and> status_of d s \<noteq> Some InProgress \<longrightarrow>
      handle e u (PostEnd (Some s)) d =
        (Message 404 ''Schedule not found or cannot be ended'', d)) \<and>
   (u = Some (uid, usr) \<and> u_role usr = Student \<and> status_of d s \<noteq> Some InProgress \<longrightarrow>
      handle e u (PostAttend (Some s)) d =
        (Message 404 ''Schedule not found or attendance already marked'', d))"
proof -
  have turns: "status_of (sv_db sv) s = Some Completed \<and> \<not> in_flight sv s \<longrightarrow>
      status_of (sv_db (step ev sv)) s = Some Completed \<and> \<not> in_flight (step ev sv) s \<and>
      status_of (sv_db (exec evs sv)) s = Some Completed"
    using step_final [of sv s ev] exec_final [of sv s evs] by blast
  have whole: "map_of (sv_pending sv) n = None \<longrightarrow>
      sv_db (exec [StartRead n e u sid, StartSave n] sv) =
        snd (handle e u (PostStart sid) (sv_db sv))"
    using start_in_turn [of sv n e u sid] by blast
  have unchanged: "snd (handle e u (PostStart (Some s)) d) = d" if c: "status_of d s = Some Completed"
  proof (cases "handle e u (PostStart (Some s)) d = handler e u (PostStart (Some s)) d")
    case True
    show ?thesis
    proof (cases u)
      case None
      with True show ?thesis by (simp add: post_start_def start_read_def)
    next
      case (Some p)
      obtain uid' usr' where "p = (uid', usr')" by (cases p)
      with Some True c show ?thesis
        by (auto simp: post_start_eq status_of_def split: option.splits)
    qed
  next
    case False
    with handle_cases [of e u "PostStart (Some s)" d] show ?thesis by simp
  qed
  have stays: "status_of d s = Some Completed \<longrightarrow>
      status_of (snd (handle e u r d)) s = Some Completed \<and>
      status_of (run qs d) s = Some Completed \<and>
      snd (handle e u (PostStart (Some s)) d) = d"
    using unchanged by (simp add: handle_status_stays run_status_stays)
  have start: "u = Some (uid, usr) \<and> u_role usr = Coach \<and> findById s (schedules d) = Some x \<and>
    cs_status x = Completed \<longrightarrow>
      handle e u (PostStart (Some s)) d =
        (if cs_coachId x \<noteq> uid then Message 404 ''Schedule not found''
         else if env_now e < cs_startTime x + minutes (-10)
         then Message 400 ''Too early to start class''
         else Message 400 ''Class is already completed'', d)"
    using start_on_completed [of s d x e uid usr] by simp
  have "end": "u = Some (uid, usr) \<and> u_role usr = Coach \<and> status_of d s \<noteq> Some InProgress \<longrightarrow>
      handle e u (PostEnd (Some s)) d =
        (Message 404 ''Schedule not found or cannot be ended'', d)"
    by (auto simp: handle_def requireCoach_def post_end_eq status_of_def split: option.splits)
  have attend: "u = Some (uid, usr) \<and> u_role usr = Student \<and> status_of d s \<noteq> Some InProgress \<longrightarrow>
      handle e u (PostAttend (Some s)) d =
        (Message 404 ''Schedule not found or attendance already marked'', d)"
    by (auto simp: handle_def post_attend_eq status_of_def split: option.splits)
  from turns whole stays start "end" attend show ?thesis by blast
qed

text \<open>
  The claim as it is written fails in three ways. A start request that read a class
  before it was started saves after the class was completed, and the class is in progress
  again. On a completed class another coach is answered 404, and the class's own coach is
  answered \<open>Too early to start class\<close> when the clock reads an early time.
\<close>

theorem completed_schedule_is_final_counterexample:
  "status_of (sv_db (exec race0 server0)) 32 = Some Completed \<and>
   status_of (sv_db (exec (race0 @ [StartSave 0]) server0)) 32 = Some InProgress \<and>
   status_of db0 31 = Some Completed \<and> u_role coach1 = Coach \<and>
   handle env0 (Some (3, coach1)) (PostStart (Some 31)) db0 =
     (Message 404 ''Schedule not found'', db0) \<and>
   handle (env0\<lparr>env_now := 100\<rparr>) (Some (1, coach0)) (PostStart (Some 31)) db0 =
     (Message 400 ''Too early to start class'', db0)"
  by code_simp

lemma completed_class1:
  "status_of db0 31 = Some Completed \<and> findById 31 (schedules db0) = Some class1 \<and>
   cs_status class1 = Completed \<and> cs_coachId class1 = 1 \<and>
   \<not> env_now env0 < cs_startTime class1 + minutes (-10) \<and>
   u_role coach0 = Coach \<and> u_role student0 = Student \<and>
   status_of (sv_db server0) 31 = Some Completed \<and> \<not> in_flight server0 31 \<and>
   map_of (sv_pending server0) 0 = None"
  by code_simp

theorem completed_schedule_is_final_witness:
  "status_of (sv_db server0) 31 = Some Completed \<and> \<not> in_flight server0 31 \<and>
   status_of (sv_db (exec (race0 @ [StartSave 0]) server0)) 31 = Some Completed \<and>
   status_of db0 31 = Some Completed \<and>
   status_of (snd (handle env0 (Some (1, coach0)) (PostStart (Some 31)) db0)) 31 = Some Completed \<and>
   snd (handle env0 (Some (1, coach0)) (PostStart (Some 31)) db0) = db0 \<and>
   u_role coach0 = Coach \<and> findById 31 (schedules db0) = Some class1 \<and>
   cs_status class1 = Completed \<and> cs_coachId class1 = 1 \<and>
   \<not> env_now env0 < cs_startTime class1 + minutes (-10) \<and>
   handle env0 (Some (1, coach0)) (PostStart (Some 31)) db0 =
     (Message 400 ''Class is already completed'', db0) \<and>
   status_of db0 31 \<noteq> Some InProgress \<and>
   handle env0 (Some (1, coach0)) (PostEnd (Some 31)) db0 =
     (Message 404 ''Schedule not found or cannot be ended'', db0) \<and>
   u_role student0 = Student \<and>
   handle env0 (Some (2, student0)) (PostAttend (Some 31)) db0 =
     (Message 404 ''Schedule not found or attendance already marked'', db0)"
proof -
  have n: "status_of db0 31 \<noteq> Some InProgress"
    using completed_class1 by simp
  note t = completed_schedule_is_final [where sv = server0 and s = 31 and d = db0 and e = env0
             and u = "Some (1, coach0)" and uid = 1 and usr = coach0 and x = class1
             and r = "PostStart (Some 31)" and evs = "race0 @ [StartSave 0]"]
  from t completed_class1
  have turns: "status_of (sv_db (exec (race0 @ [StartSave 0]) server0)) 31 = Some Completed"
    by blast
  from t completed_class1
  have stays:
    "status_of (snd (handle env0 (Some (1, coach0)) (PostStart (Some 31)) db0)) 31 = Some Completed \<and>
     snd (handle env0 (Some (1, coach0)) (PostStart (Some 31)) db0) = db0"
    by blast
  from t completed_class1
  have "handle env0 (Some (1, coach0)) (PostStart (Some 31)) db0 =
     (if cs_coachId class1 \<noteq> 1 then Message 404 ''Schedule not found''
      else if env_now env0 < cs_startTime class1 + minutes (-10)
      then Message 400 ''Too early to start class''
      else Message 400 ''Class is already completed'', db0)"
    by blast
  with completed_class1
  have start: "handle env0 (Some (1, coach0)) (PostStart (Some 31)) db0 =
     (Message 400 ''Class is already completed'', db0)"
    by simp
  from t completed_class1 n
  have finish: "handle env0 (Some (1, coach0)) (PostEnd (Some 31)) db0 =
     (Message 404 ''Schedule not found or cannot be ended'', db0)"
    by blast
  note t2 = completed_schedule_is_final [where s = 31 and d = db0 and e = env0
             and u = "Some (2, student0)" and uid = 2 and usr = student0]
  from t2 completed_class1 n
  have attend: "handle env0 (Some (2, student0)) (PostAttend (Some 31)) db0 =
     (Message 404 ''Schedule not found or attendance already marked'', db0)"
    by blast
  from completed_class1 n turns stays start finish attend show ?thesis by simp
qed

end
